theory Spec2Isabelle
  imports Main "HOL-Library.Word" "HOL-Library.AList"
begin

unbundle bit_operations_syntax

section \<open>The Fabric blockchain connector (internal/blockchain/fabric/fabric.go)\<close>

text \<open>
  A shallow embedding of the event path and of the contract lifecycle of the Fabric
  connector: \<open>parseBlockchainEvent\<close>, \<open>handleBatchPinEvent\<close>, \<open>handleContractEvent\<close>,
  \<open>handleReceipt\<close>, \<open>handleMessageBatch\<close>, \<open>eventLoop\<close>, \<open>resolveFireFlyContract\<close>,
  \<open>getNetworkVersion\<close>, \<open>ConfigureContract\<close> and \<open>TerminateContract\<close>.

  A Go \<open>error\<close> is kept as its text; a \<open>nil\<close> error is \<open>None\<close>.
  Go's \<open>int\<close> and \<open>int64\<close> are 64-bit words, read as signed numbers with \<open>sint\<close>.
\<close>

subsection \<open>Errors\<close>

text \<open>
  An error is known by its text (\<open>err.Error()\<close>), which is all the modelled code reads
  of one.
\<close>

type_synonym error = string

subsection \<open>JSON values\<close>

text \<open>
  The value of an \<open>interface{}\<close> filled by \<open>json.Unmarshal\<close>. A number is a \<open>float64\<close> in
  Go; the model keeps the literal it was read from and leaves every conversion of numbers
  to the library functions below. An object (\<open>map[string]interface{}\<close>,
  \<open>fftypes.JSONObject\<close>) is an association list read with \<open>map_of\<close>; the \<open>nil\<close> map and the
  empty map are both \<open>[]\<close>.
\<close>

datatype json =
    JNull
  | JBool bool
  | JNumber string
  | JString string
  | JArray "json list"
  | JObject "(string \<times> json) list"

type_synonym jobject = "(string \<times> json) list"
type_synonym byte = "8 word"

subsection \<open>Library functions the connector calls\<close>

text \<open>
  Functions of the Go standard library and of firefly-common whose exact behaviour is not
  part of this repository are parameters of the model. Every theorem below holds for
  every value of these parameters.
  \<^item> \<open>base64Decode\<close>: \<open>base64.StdEncoding.DecodeString\<close>, \<open>None\<close> on an error;
  \<^item> \<open>jsonObjectOk\<close>: \<open>fftypes.JSONAnyPtrBytes(bytes).JSONObjectOk()\<close>, \<open>None\<close> when not ok;
  \<^item> \<open>jsonUnmarshal\<close>: \<open>json.Unmarshal\<close> into an \<open>interface{}\<close>, \<open>None\<close> on an error;
  \<^item> \<open>unmarshalB32\<close>: \<open>fftypes.Bytes32.UnmarshalText\<close>, \<open>None\<close> on an error;
  \<^item> \<open>otherString\<close>: what \<open>JSONObject.GetString\<close> returns for a value that is present, not
    \<open>nil\<close> and not a string;
  \<^item> \<open>otherStringArray\<close>: what \<open>JSONObject.GetStringArray\<close> returns for a value that is
    present, not \<open>nil\<close> and not an array of strings;
  \<^item> \<open>toInt64\<close>: what \<open>JSONObject.GetInt64\<close> returns for a value that is present and not
    \<open>nil\<close>;
  \<^item> \<open>unmarshalQueryOutput\<close>: \<open>json.Unmarshal\<close> of a query response body into a
    \<open>fabQueryNamedOutput\<close>: the error, or the value of its \<open>Result\<close> field (\<open>JNull\<close>
    for \<open>nil\<close>);
  \<^item> \<open>floatToInt\<close>: the conversion \<open>int(x)\<close> of the \<open>float64\<close> read from a number literal;
  \<^item> \<open>NewError\<close>: the text of the error that \<open>i18n.NewError\<close> builds from a message key
    and its arguments;
  \<^item> \<open>SubOptsFirstEventOldest\<close>: the constant of that name of \<open>pkg/core\<close>.
\<close>

record lib =
  base64Decode :: "string \<Rightarrow> string option"
  jsonObjectOk :: "string \<Rightarrow> jobject option"
  jsonUnmarshal :: "string \<Rightarrow> json option"
  unmarshalB32 :: "string \<Rightarrow> byte list option"
  otherString :: "json \<Rightarrow> string"
  otherStringArray :: "json \<Rightarrow> string list"
  toInt64 :: "json \<Rightarrow> 64 word"
  unmarshalQueryOutput :: "string \<Rightarrow> error + json"
  floatToInt :: "string \<Rightarrow> 64 word"
  NewError :: "string \<Rightarrow> string list \<Rightarrow> error"
  SubOptsFirstEventOldest :: string

text \<open>\<open>JSONObject.GetString\<close>: the string under the key, \<open>""\<close> when the key is missing or \<open>nil\<close>.\<close>

definition GetString :: "lib \<Rightarrow> jobject \<Rightarrow> string \<Rightarrow> string" where
  "GetString L jd key =
     (case map_of jd key of
        None \<Rightarrow> ''''
      | Some JNull \<Rightarrow> ''''
      | Some (JString s) \<Rightarrow> s
      | Some v \<Rightarrow> otherString L v)"

fun stringElements :: "json list \<Rightarrow> string list option" where
  "stringElements [] = Some []"
| "stringElements (JString s # vs) = map_option ((#) s) (stringElements vs)"
| "stringElements (v # vs) = None"

text \<open>
  \<open>JSONObject.GetStringArray\<close>: the elements of an array of strings, in the order of the
  array; the empty slice when the key is missing or \<open>nil\<close>.
\<close>

definition GetStringArray :: "lib \<Rightarrow> jobject \<Rightarrow> string \<Rightarrow> string list" where
  "GetStringArray L jd key =
     (case map_of jd key of
        None \<Rightarrow> []
      | Some JNull \<Rightarrow> []
      | Some (JArray vs) \<Rightarrow>
          (case stringElements vs of Some ss \<Rightarrow> ss | None \<Rightarrow> otherStringArray L (JArray vs))
      | Some v \<Rightarrow> otherStringArray L v)"

text \<open>\<open>JSONObject.GetInt64\<close>: \<open>0\<close> when the key is missing or \<open>nil\<close>.\<close>

definition GetInt64 :: "lib \<Rightarrow> jobject \<Rightarrow> string \<Rightarrow> 64 word" where
  "GetInt64 L jd key =
     (case map_of jd key of
        None \<Rightarrow> 0
      | Some JNull \<Rightarrow> 0
      | Some v \<Rightarrow> toInt64 L v)"

text \<open>\<open>JSONObject.GetObject\<close>: the object under the key, the empty object otherwise.\<close>

definition GetObject :: "jobject \<Rightarrow> string \<Rightarrow> jobject" where
  "GetObject jd key = (case map_of jd key of Some (JObject ob) \<Rightarrow> ob | _ \<Rightarrow> [])"

text \<open>\<open>strings.HasPrefix\<close>, \<open>strings.TrimPrefix\<close> and \<open>strings.Contains\<close>.\<close>

definition HasPrefix :: "string \<Rightarrow> string \<Rightarrow> bool" where
  "HasPrefix s p = (take (length p) s = p)"

definition TrimPrefix :: "string \<Rightarrow> string \<Rightarrow> string" where
  "TrimPrefix s p = (if HasPrefix s p then drop (length p) s else s)"

fun Contains :: "string \<Rightarrow> string \<Rightarrow> bool" where
  "Contains [] substr = (substr = [])"
| "Contains (c # s) substr = (HasPrefix (c # s) substr \<or> Contains s substr)"

text \<open>
  \<open>hex.DecodeString\<close>: two hexadecimal digits of either case give one byte
  \<open>(a << 4) | b\<close>; an odd length or any other character is an error. The connector reads
  the decoded bytes only when there is no error.
\<close>

definition fromHexChar :: "char \<Rightarrow> byte option" where
  "fromHexChar c = map_of
     [(CHR ''0'', 0), (CHR ''1'', 1), (CHR ''2'', 2), (CHR ''3'', 3), (CHR ''4'', 4),
      (CHR ''5'', 5), (CHR ''6'', 6), (CHR ''7'', 7), (CHR ''8'', 8), (CHR ''9'', 9),
      (CHR ''a'', 10), (CHR ''b'', 11), (CHR ''c'', 12), (CHR ''d'', 13), (CHR ''e'', 14),
      (CHR ''f'', 15), (CHR ''A'', 10), (CHR ''B'', 11), (CHR ''C'', 12), (CHR ''D'', 13),
      (CHR ''E'', 14), (CHR ''F'', 15)] c"

fun hexDecodeString :: "string \<Rightarrow> byte list option" where
  "hexDecodeString [] = Some []"
| "hexDecodeString [p] = None"
| "hexDecodeString (p # q # src) =
     (case fromHexChar p of
        None \<Rightarrow> None
      | Some a \<Rightarrow>
          (case fromHexChar q of
             None \<Rightarrow> None
           | Some b \<Rightarrow> map_option ((#) (push_bit 4 a OR b)) (hexDecodeString src)))"

text \<open>
  \<open>fmt.Sprintf("%.12d/%.6d/%.6d", ...)\<close>: a precision on \<open>%d\<close> is the least number of
  digits, filled with zeros on the left; the sign is not counted.
\<close>

fun decimal :: "nat \<Rightarrow> string" where
  "decimal n =
     (if n < 10 then [''0123456789'' ! n]
      else decimal (n div 10) @ [''0123456789'' ! (n mod 10)])"

definition sprintf_d :: "nat \<Rightarrow> 64 word \<Rightarrow> string" where
  "sprintf_d precision i =
     (let ds = decimal (nat (abs (sint i)));
          padded = replicate (precision - length ds) (CHR ''0'') @ ds
      in if sint i < 0 then CHR ''-'' # padded else padded)"

subsection \<open>The data model (pkg/blockchain)\<close>

text \<open>
  \<open>blockchain.Event\<close>. The field \<open>Info\<close> is named \<open>EventInfo\<close> here, apart from the \<open>Info\<close>
  of a contract record; \<open>Timestamp\<close> holds the number handed to \<open>fftypes.UnixTime\<close>.
\<close>

record blockchain_event =
  BlockchainTXID :: string
  Source :: string
  Name :: string
  ProtocolID :: string
  Output :: jobject
  EventInfo :: jobject
  Timestamp :: "64 word"
  Location :: string
  Signature :: string

datatype verifier_type = VerifierTypeEthAddress | VerifierTypeMSPIdentity | VerifierTypeFFDXPeerID

record verifier_ref =
  Type :: verifier_type
  Value :: string

text \<open>\<open>blockchain.BatchPin\<close>; a UUID is its 16 bytes, a \<open>Bytes32\<close> its 32 bytes.\<close>

record batch_pin =
  Namespace :: string
  TransactionID :: "byte list"
  BatchID :: "byte list"
  BatchHash :: "byte list"
  BatchPayloadRef :: string
  Contexts :: "byte list list"
  Event :: blockchain_event

text \<open>\<open>blockchain.EventWithSubscription\<close>: the embedded event and the subscription.\<close>

record event_with_subscription =
  EmbeddedEvent :: blockchain_event
  Subscription :: string

datatype op_status = OpStatusPending | OpStatusSucceeded | OpStatusFailed

subsection \<open>Callbacks and their fan-out\<close>

text \<open>
  A registered listener (\<open>blockchain.Callbacks\<close>) is a black box of the host: each method
  reads and changes the host's state \<open>'s\<close> and, apart from \<open>BlockchainOpUpdate\<close>, returns
  an error or \<open>nil\<close>.
\<close>

record 's listener =
  onBlockchainOpUpdate ::
    "string \<Rightarrow> op_status \<Rightarrow> string \<Rightarrow> string \<Rightarrow> jobject \<Rightarrow> 's \<Rightarrow> 's"
  onBatchPinComplete :: "batch_pin \<Rightarrow> verifier_ref \<Rightarrow> 's \<Rightarrow> error option \<times> 's"
  onBlockchainNetworkAction ::
    "string \<Rightarrow> blockchain_event \<Rightarrow> verifier_ref \<Rightarrow> 's \<Rightarrow> error option \<times> 's"
  onBlockchainEvent :: "event_with_subscription \<Rightarrow> 's \<Rightarrow> error option \<times> 's"

text \<open>
  The methods of \<open>callbacks\<close> (fabric.go, lines 78 to 109) call the listeners in the order
  of registration; the three that return an error stop at the first listener that fails.
\<close>

fun listeners_BlockchainOpUpdate ::
  "'s listener list \<Rightarrow> string \<Rightarrow> op_status \<Rightarrow> string \<Rightarrow> string \<Rightarrow> jobject \<Rightarrow> 's \<Rightarrow> 's" where
  "listeners_BlockchainOpUpdate [] nsOpID txState blockchainTXID errorMessage opOutput s = s"
| "listeners_BlockchainOpUpdate (cb # cbs) nsOpID txState blockchainTXID errorMessage opOutput s =
     listeners_BlockchainOpUpdate cbs nsOpID txState blockchainTXID errorMessage opOutput
       (onBlockchainOpUpdate cb nsOpID txState blockchainTXID errorMessage opOutput s)"

fun listeners_BatchPinComplete ::
  "'s listener list \<Rightarrow> batch_pin \<Rightarrow> verifier_ref \<Rightarrow> 's \<Rightarrow> error option \<times> 's" where
  "listeners_BatchPinComplete [] batch signingKey s = (None, s)"
| "listeners_BatchPinComplete (cb # cbs) batch signingKey s =
     (case onBatchPinComplete cb batch signingKey s of
        (Some err, s') \<Rightarrow> (Some err, s')
      | (None, s') \<Rightarrow> listeners_BatchPinComplete cbs batch signingKey s')"

fun listeners_BlockchainNetworkAction ::
  "'s listener list \<Rightarrow> string \<Rightarrow> blockchain_event \<Rightarrow> verifier_ref \<Rightarrow> 's \<Rightarrow> error option \<times> 's" where
  "listeners_BlockchainNetworkAction [] action event signingKey s = (None, s)"
| "listeners_BlockchainNetworkAction (cb # cbs) action event signingKey s =
     (case onBlockchainNetworkAction cb action event signingKey s of
        (Some err, s') \<Rightarrow> (Some err, s')
      | (None, s') \<Rightarrow> listeners_BlockchainNetworkAction cbs action event signingKey s')"

fun listeners_BlockchainEvent ::
  "'s listener list \<Rightarrow> event_with_subscription \<Rightarrow> 's \<Rightarrow> error option \<times> 's" where
  "listeners_BlockchainEvent [] event s = (None, s)"
| "listeners_BlockchainEvent (cb # cbs) event s =
     (case onBlockchainEvent cb event s of
        (Some err, s') \<Rightarrow> (Some err, s')
      | (None, s') \<Rightarrow> listeners_BlockchainEvent cbs event s')"

text \<open>
  What the connector does to the host is observed through a log: every invocation of a
  method of \<open>f.callbacks\<close> appends its arguments and the error it returned. The log and
  the host's state are threaded through the handlers.
\<close>

datatype call =
    CallBlockchainOpUpdate string op_status string string jobject
  | CallBatchPinComplete batch_pin verifier_ref
  | CallBlockchainNetworkAction string blockchain_event verifier_ref
  | CallBlockchainEvent event_with_subscription

record 's host =
  calls :: "(call \<times> error option) list"
  hstate :: "'s"

definition callbacks_BlockchainOpUpdate ::
  "'s listener list \<Rightarrow> string \<Rightarrow> op_status \<Rightarrow> string \<Rightarrow> string \<Rightarrow> jobject \<Rightarrow> 's host \<Rightarrow> 's host" where
  "callbacks_BlockchainOpUpdate ls nsOpID txState blockchainTXID errorMessage opOutput h =
     \<lparr>calls = calls h @
        [(CallBlockchainOpUpdate nsOpID txState blockchainTXID errorMessage opOutput, None)],
      hstate = listeners_BlockchainOpUpdate ls nsOpID txState blockchainTXID errorMessage
                 opOutput (hstate h)\<rparr>"

definition callbacks_BatchPinComplete ::
  "'s listener list \<Rightarrow> batch_pin \<Rightarrow> verifier_ref \<Rightarrow> 's host \<Rightarrow> error option \<times> 's host" where
  "callbacks_BatchPinComplete ls batch signingKey h =
     (case listeners_BatchPinComplete ls batch signingKey (hstate h) of
        (err, s') \<Rightarrow>
          (err, \<lparr>calls = calls h @ [(CallBatchPinComplete batch signingKey, err)],
                 hstate = s'\<rparr>))"

definition callbacks_BlockchainNetworkAction ::
  "'s listener list \<Rightarrow> string \<Rightarrow> blockchain_event \<Rightarrow> verifier_ref \<Rightarrow> 's host
     \<Rightarrow> error option \<times> 's host" where
  "callbacks_BlockchainNetworkAction ls action event signingKey h =
     (case listeners_BlockchainNetworkAction ls action event signingKey (hstate h) of
        (err, s') \<Rightarrow>
          (err, \<lparr>calls = calls h @ [(CallBlockchainNetworkAction action event signingKey, err)],
                 hstate = s'\<rparr>))"

definition callbacks_BlockchainEvent ::
  "'s listener list \<Rightarrow> event_with_subscription \<Rightarrow> 's host \<Rightarrow> error option \<times> 's host" where
  "callbacks_BlockchainEvent ls event h =
     (case listeners_BlockchainEvent ls event (hstate h) of
        (err, s') \<Rightarrow>
          (err, \<lparr>calls = calls h @ [(CallBlockchainEvent event, err)], hstate = s'\<rparr>))"

text \<open>The entries that a handler added to the log.\<close>

definition new_calls :: "'s host \<Rightarrow> 's host \<Rightarrow> (call \<times> error option) list" where
  "new_calls h h' = drop (length (calls h)) (calls h')"

text \<open>A stretch of the log in which no call returned an error.\<close>

definition quiet :: "(call \<times> error option) list \<Rightarrow> bool" where
  "quiet new = list_all (\<lambda>cr. snd cr = None) new"

subsection \<open>The connector's state\<close>

text \<open>
  The fields of \<open>Fabric\<close> that the modelled functions read. \<open>fireflyContract\<close> is the
  mutex-guarded runtime state; the model runs one operation at a time, so a locked read
  is a read. Of the configuration, \<open>contractConf i\<close> is
  \<open>f.contractConf.ArrayEntry(i)\<close> with its two strings (\<open>""\<close> when unset), and
  \<open>FabconnectConfigChaincodeDeprecated\<close> is the string under that key of
  \<open>f.fabconnectConf\<close>.
\<close>

record fireflyContract_state =
  chaincode :: string
  fromBlock :: string
  networkVersion :: "64 word"
  subscription :: string

record contract_conf =
  FireFlyContractChaincode :: string
  FireFlyContractFromBlock :: string

record 's fabric =
  topic :: string
  defaultChannel :: string
  signer :: string
  streamID :: string
  fireflyContract :: fireflyContract_state
  callbacks :: "'s listener list"
  FabconnectConfigChaincodeDeprecated :: string
  contractConf :: "64 word \<Rightarrow> contract_conf"
  contractConfSize :: "64 word"

definition broadcastBatchEventName :: string where
  "broadcastBatchEventName = ''BatchPin''"

definition batchPinEvent :: string where
  "batchPinEvent = ''BatchPin''"

definition networkVersionMethodName :: string where
  "networkVersionMethodName = ''NetworkVersion''"

definition FireFlyActionPrefix :: string where
  "FireFlyActionPrefix = ''firefly:''"

subsection \<open>Decoding an event\<close>

definition decodeJSONPayload :: "lib \<Rightarrow> string \<Rightarrow> jobject option" where
  "decodeJSONPayload L payloadString =
     (case base64Decode L payloadString of
        None \<Rightarrow> None
      | Some bytes \<Rightarrow> jsonObjectOk L bytes)"

definition buildEventLocationString :: "string \<Rightarrow> string" where
  "buildEventLocationString chaincodeId = ''chaincode='' @ chaincodeId"

text \<open>
  \<open>parseBlockchainEvent\<close> deletes the key \<open>payload\<close> from the message it was given (a Go
  map, shared with the caller) and hands that same map out as the event's \<open>Info\<close>. The
  model returns the event alone: after a successful call the caller's \<open>msgJSON\<close> is
  \<open>EventInfo event\<close>, after a failed one it is unchanged.
\<close>

definition parseBlockchainEvent :: "lib \<Rightarrow> jobject \<Rightarrow> blockchain_event option" where
  "parseBlockchainEvent L msgJSON =
     (case decodeJSONPayload L (GetString L msgJSON ''payload'') of
        None \<Rightarrow> None
      | Some payload \<Rightarrow>
          (let sTransactionHash = GetString L msgJSON ''transactionId'';
               blockNumber = GetInt64 L msgJSON ''blockNumber'';
               transactionIndex = GetInt64 L msgJSON ''transactionIndex'';
               eventIndex = GetInt64 L msgJSON ''eventIndex'';
               name = GetString L msgJSON ''eventName'';
               timestamp = GetInt64 L msgJSON ''timestamp'';
               chaincodeId = GetString L msgJSON ''chaincodeId''
           in Some \<lparr>BlockchainTXID = sTransactionHash,
                     Source = ''fabric'',
                     Name = name,
                     ProtocolID = sprintf_d 12 blockNumber @ ''/'' @
                       sprintf_d 6 transactionIndex @ ''/'' @ sprintf_d 6 eventIndex,
                     Output = payload,
                     EventInfo = AList.delete ''payload'' msgJSON,
                     Timestamp = timestamp,
                     Location = buildEventLocationString chaincodeId,
                     Signature = name\<rparr>))"

text \<open>The loop over \<open>sContexts\<close> of \<open>handleBatchPinEvent\<close>: it gives up at the first bad hash.\<close>

fun unmarshalContexts :: "lib \<Rightarrow> string list \<Rightarrow> byte list list option" where
  "unmarshalContexts L [] = Some []"
| "unmarshalContexts L (sHash # sContexts) =
     (case unmarshalB32 L sHash of
        None \<Rightarrow> None
      | Some hash \<Rightarrow> map_option ((#) hash) (unmarshalContexts L sContexts))"

definition handleBatchPinEvent ::
  "lib \<Rightarrow> 's fabric \<Rightarrow> jobject \<Rightarrow> 's host \<Rightarrow> error option \<times> 's host" where
  "handleBatchPinEvent L f msgJSON h =
     (case parseBlockchainEvent L msgJSON of
        None \<Rightarrow> (None, h)
      | Some event \<Rightarrow>
          (let signerId = GetString L (Output event) ''signer'';
               nsOrAction = GetString L (Output event) ''namespace'';
               sUUIDs = GetString L (Output event) ''uuids'';
               sBatchHash = GetString L (Output event) ''batchHash'';
               sPayloadRef = GetString L (Output event) ''payloadRef'';
               sContexts = GetStringArray L (Output event) ''contexts'';
               verifier = \<lparr>Type = VerifierTypeMSPIdentity, Value = signerId\<rparr>
           in if HasPrefix nsOrAction FireFlyActionPrefix
              then callbacks_BlockchainNetworkAction (callbacks f)
                     (drop (length FireFlyActionPrefix) nsOrAction) event verifier h
              else
                (case hexDecodeString (TrimPrefix sUUIDs ''0x'') of
                   None \<Rightarrow> (None, h)
                 | Some hexUUIDs \<Rightarrow>
                     if length hexUUIDs \<noteq> 32 then (None, h)
                     else
                       (case unmarshalB32 L sBatchHash of
                          None \<Rightarrow> (None, h)
                        | Some batchHash \<Rightarrow>
                            (case unmarshalContexts L sContexts of
                               None \<Rightarrow> (None, h)
                             | Some contexts \<Rightarrow>
                                 callbacks_BatchPinComplete (callbacks f)
                                   \<lparr>Namespace = nsOrAction,
                                    TransactionID = take 16 hexUUIDs,
                                    BatchID = take 16 (drop 16 hexUUIDs),
                                    BatchHash = batchHash,
                                    BatchPayloadRef = sPayloadRef,
                                    Contexts = contexts,
                                    Event = event\<rparr>
                                   verifier h)))))"

text \<open>
  \<open>handleContractEvent\<close> reads \<open>subId\<close> after \<open>parseBlockchainEvent\<close> has deleted the
  payload from the shared map.
\<close>

definition handleContractEvent ::
  "lib \<Rightarrow> 's fabric \<Rightarrow> jobject \<Rightarrow> 's host \<Rightarrow> error option \<times> 's host" where
  "handleContractEvent L f msgJSON h =
     (case parseBlockchainEvent L msgJSON of
        None \<Rightarrow> (None, h)
      | Some event \<Rightarrow>
          callbacks_BlockchainEvent (callbacks f)
            \<lparr>EmbeddedEvent = event,
             Subscription = GetString L (EventInfo event) ''subId''\<rparr> h)"

definition handleReceipt :: "lib \<Rightarrow> 's fabric \<Rightarrow> jobject \<Rightarrow> 's host \<Rightarrow> 's host" where
  "handleReceipt L f reply h =
     (let headers = GetObject reply ''headers'';
          requestID = GetString L headers ''requestId'';
          replyType = GetString L headers ''type'';
          txHash = GetString L reply ''transactionId'';
          message = GetString L reply ''errorMessage''
      in if requestID = '''' \<or> replyType = '''' then h
         else
           (let updateType =
                  (if replyType \<noteq> ''TransactionSuccess'' then OpStatusFailed
                   else OpStatusSucceeded)
            in callbacks_BlockchainOpUpdate (callbacks f) requestID updateType txHash message
                 reply h))"

subsection \<open>The batch dispatcher and the event loop\<close>

text \<open>
  \<open>handleMessageBatch\<close>: the loop over the messages is the recursion over the list. A
  message that is not a JSON object makes the function return \<open>nil\<close> at once.
\<close>

fun handleMessageBatch ::
  "lib \<Rightarrow> 's fabric \<Rightarrow> json list \<Rightarrow> 's host \<Rightarrow> error option \<times> 's host" where
  "handleMessageBatch L f [] h = (None, h)"
| "handleMessageBatch L f (JObject msgJSON # messages) h =
     (let eventName = GetString L msgJSON ''eventName'';
          sub = GetString L msgJSON ''subId'';
          fireflySub = subscription (fireflyContract f)
      in if sub = fireflySub then
           (if eventName = broadcastBatchEventName then
              (case handleBatchPinEvent L f msgJSON h of
                 (Some err, h') \<Rightarrow> (Some err, h')
               | (None, h') \<Rightarrow> handleMessageBatch L f messages h')
            else handleMessageBatch L f messages h)
         else
           (case handleContractEvent L f msgJSON h of
              (Some err, h') \<Rightarrow> (Some err, h')
            | (None, h') \<Rightarrow> handleMessageBatch L f messages h'))"
| "handleMessageBatch L f (msgI # messages) h = (None, h)"

text \<open>
  The event loop consumes what its \<open>select\<close> observes, one observation after the other:
  the cancellation of the context, the closing of the receive channel, or a frame. A
  frame carries the error that \<open>f.wsconn.Send\<close> returns if the loop sends while handling
  it (\<open>None\<close> when the send succeeds). The frames handed to \<open>Send\<close> are kept as the JSON
  value that is marshalled. The loop is \<open>Closed\<close> once it has returned (the transport
  and \<open>f.closed\<close> are closed by the deferred calls); it is still \<open>Running\<close>, blocked in
  \<open>select\<close>, when the observations are used up.
\<close>

datatype observation = CtxDone | ReceiveClosed | Frame string "error option"

datatype loop_status = Running | Closed

record 's loop_state =
  sent :: "json list"
  host :: "'s host"

definition ack :: "'s fabric \<Rightarrow> json" where
  "ack f = JObject [(''type'', JString ''ack''), (''topic'', JString (topic f))]"

fun eventLoop ::
  "lib \<Rightarrow> 's fabric \<Rightarrow> observation list \<Rightarrow> 's loop_state \<Rightarrow> loop_status \<times> 's loop_state" where
  "eventLoop L f [] st = (Running, st)"
| "eventLoop L f (CtxDone # obs) st = (Closed, st)"
| "eventLoop L f (ReceiveClosed # obs) st = (Closed, st)"
| "eventLoop L f (Frame msgBytes sendErr # obs) st =
     (case jsonUnmarshal L msgBytes of
        None \<Rightarrow> eventLoop L f obs st
      | Some (JArray msgTyped) \<Rightarrow>
          (case handleMessageBatch L f msgTyped (host st) of
             (Some err, h') \<Rightarrow> (Closed, st\<lparr>host := h'\<rparr>)
           | (None, h') \<Rightarrow>
               (case sendErr of
                  Some err \<Rightarrow> (Closed, \<lparr>sent = sent st @ [ack f], host = h'\<rparr>)
                | None \<Rightarrow> eventLoop L f obs \<lparr>sent = sent st @ [ack f], host = h'\<rparr>))
      | Some (JObject msgTyped) \<Rightarrow>
          eventLoop L f obs (st\<lparr>host := handleReceipt L f msgTyped (host st)\<rparr>)
      | Some msgTyped \<Rightarrow> eventLoop L f obs st)"

subsection \<open>The contract lifecycle\<close>

text \<open>\<open>core.FireFlyContractInfo\<close> and \<open>core.FireFlyContracts\<close>.\<close>

record FireFlyContractInfo =
  Index :: "64 word"
  FinalEvent :: string
  Info :: jobject

record FireFlyContracts =
  Active :: FireFlyContractInfo
  Terminated :: "FireFlyContractInfo list"

record location =
  Channel :: string
  Chaincode :: string

text \<open>
  FabConnect is outside the program. \<open>ensureFireFlySubscription\<close> is the method of the
  stream manager (eventstream.go), taken as it answers: the
  identifier of the subscription it found or created, or its error. \<open>postQuery\<close> is the
  HTTP round trip of \<open>queryContractMethod\<close>: a transport error, or a response with its
  \<open>IsSuccess()\<close> and its body. \<open>wrapError\<close> is the text of the error that the function of
  that name builds from a failed round trip.
\<close>

record query_request =
  reqChannel :: string
  reqChaincode :: string
  reqFunc :: string
  reqSigner :: string

datatype http_result = HttpError error | HttpResponse bool string

record remote =
  ensureFireFlySubscription :: "location \<Rightarrow> string \<Rightarrow> string \<Rightarrow> string \<Rightarrow> error + string"
  postQuery :: "query_request \<Rightarrow> http_result"
  wrapError :: "http_result \<Rightarrow> error"

definition IsSuccess :: "http_result \<Rightarrow> bool" where
  "IsSuccess res = (case res of HttpResponse ok body \<Rightarrow> ok | HttpError e \<Rightarrow> False)"

definition Body :: "http_result \<Rightarrow> string" where
  "Body res = (case res of HttpResponse ok body \<Rightarrow> body | HttpError e \<Rightarrow> '''')"

text \<open>A function either returns or panics (a failed type assertion, a \<open>nil\<close> dereference).\<close>

datatype 'a outcome = Returns 'a | Panics

definition resolveFireFlyContract :: "lib \<Rightarrow> 's fabric \<Rightarrow> 64 word \<Rightarrow> error + string \<times> string" where
  "resolveFireFlyContract L f contractIndex =
     (if 0 < sint (contractConfSize f) \<or> 0 < sint contractIndex then
        (if sint (contractConfSize f) \<le> sint contractIndex then
           Inl (NewError L ''MsgInvalidFireFlyContractIndex''
                  [''blockchain.fabric.fireflyContract['' @ sprintf_d 1 contractIndex @ '']''])
         else
           (let chaincodeId = FireFlyContractChaincode (contractConf f contractIndex)
            in if chaincodeId = '''' then
                 Inl (NewError L ''MsgMissingPluginConfig''
                        [''chaincode'', ''blockchain.fabric.fireflyContract''])
               else Inr (chaincodeId, FireFlyContractFromBlock (contractConf f contractIndex))))
      else
        (let chaincodeId = FabconnectConfigChaincodeDeprecated f
         in if chaincodeId \<noteq> '''' then Inr (chaincodeId, SubOptsFirstEventOldest L)
            else Inl (NewError L ''MsgMissingPluginConfig''
                        [''chaincode'', ''blockchain.fabric.fabconnect''])))"

text \<open>
  \<open>queryContractMethod\<close> as \<open>getNetworkVersion\<close> calls it, with an empty input and no
  options: building the request body cannot fail then, and the result is the response
  with the error of the round trip.
\<close>

definition queryContractMethod ::
  "remote \<Rightarrow> string \<Rightarrow> string \<Rightarrow> string \<Rightarrow> string \<Rightarrow> http_result \<times> error option" where
  "queryContractMethod R channel chaincodeId methodName signingKey =
     (let res = postQuery R \<lparr>reqChannel = channel, reqChaincode = chaincodeId,
                  reqFunc = methodName, reqSigner = signingKey\<rparr>
      in case res of
           HttpError e \<Rightarrow> (res, Some (wrapError R res))
         | HttpResponse ok body \<Rightarrow>
             if \<not> ok then (res, Some (wrapError R res)) else (res, None))"

definition getNetworkVersion ::
  "lib \<Rightarrow> remote \<Rightarrow> 's fabric \<Rightarrow> string \<Rightarrow> (64 word \<times> error option) outcome" where
  "getNetworkVersion L R f chaincodeId =
     (case queryContractMethod R (defaultChannel f) chaincodeId networkVersionMethodName
             (signer f) of
        (res, err) \<Rightarrow>
          if err \<noteq> None \<or> \<not> IsSuccess res then
            (let notFoundError = ''Function '' @ networkVersionMethodName @ '' not found''
             in case err of
                  None \<Rightarrow> Panics
                | Some e \<Rightarrow>
                    if Contains e notFoundError then Returns (1, None)
                    else Returns (0, Some e))
          else
            (case unmarshalQueryOutput L (Body res) of
               Inl e \<Rightarrow> Returns (0, Some e)
             | Inr (JNumber x) \<Rightarrow> Returns (floatToInt L x, None)
             | Inr v \<Rightarrow> Panics))"

text \<open>
  \<open>ConfigureContract\<close> and \<open>TerminateContract\<close> change the connector and the contracts
  record they are given a pointer to; the model returns both with the result.
\<close>

definition ConfigureContract ::
  "lib \<Rightarrow> remote \<Rightarrow> 's fabric \<Rightarrow> FireFlyContracts
     \<Rightarrow> error option outcome \<times> 's fabric \<times> FireFlyContracts" where
  "ConfigureContract L R f contracts =
     (case resolveFireFlyContract L f (Index (Active contracts)) of
        Inl err \<Rightarrow> (Returns (Some err), f, contracts)
      | Inr (chaincodeId, fromBlockId) \<Rightarrow>
          (let loc = \<lparr>Channel = defaultChannel f, Chaincode = chaincodeId\<rparr>
           in case ensureFireFlySubscription R loc fromBlockId (streamID f) batchPinEvent of
                Inl err \<Rightarrow> (Returns (Some err), f, contracts)
              | Inr subID \<Rightarrow>
                  (case getNetworkVersion L R f chaincodeId of
                     Panics \<Rightarrow> (Panics, f, contracts)
                   | Returns (version, Some err) \<Rightarrow> (Returns (Some err), f, contracts)
                   | Returns (version, None) \<Rightarrow>
                       (Returns None,
                        f\<lparr>fireflyContract :=
                            \<lparr>chaincode = chaincodeId, fromBlock = fromBlockId,
                             networkVersion = version, subscription = subID\<rparr>\<rparr>,
                        contracts\<lparr>Active := (Active contracts)\<lparr>Info :=
                            [(''chaincode'', JString chaincodeId),
                             (''fromBlock'', JString fromBlockId),
                             (''subscription'', JString subID)]\<rparr>\<rparr>))))"

definition TerminateContract ::
  "lib \<Rightarrow> remote \<Rightarrow> 's fabric \<Rightarrow> FireFlyContracts \<Rightarrow> blockchain_event
     \<Rightarrow> error option outcome \<times> 's fabric \<times> FireFlyContracts" where
  "TerminateContract L R f contracts termination =
     (let chaincodeId = GetString L (EventInfo termination) ''chaincodeId'';
          fireflyChaincode = chaincode (fireflyContract f)
      in if chaincodeId \<noteq> fireflyChaincode then (Returns None, f, contracts)
         else
           (let c1 = contracts\<lparr>Active := (Active contracts)\<lparr>FinalEvent := ProtocolID termination\<rparr>\<rparr>;
                c2 = c1\<lparr>Terminated := Terminated c1 @ [Active c1]\<rparr>;
                c3 = c2\<lparr>Active := \<lparr>Index = Index (Active c2) + 1, FinalEvent = '''',
                                    Info = []\<rparr>\<rparr>
            in ConfigureContract L R f c3))"

section \<open>A library instance for evaluating the model\<close>

text \<open>
  The theorems hold for every library. To run the model on concrete messages, the
  parameters are instantiated with the functions below. The base64 decoder follows
  \<open>base64.StdEncoding\<close> (standard alphabet, padding required, line breaks ignored,
  trailing bits not checked). The JSON reader covers objects, arrays, strings without
  escape sequences, numbers without fraction or exponent, and the three literals; on
  any other text it answers with an error.
\<close>

definition b64_sextet :: "nat \<Rightarrow> nat option" where
  "b64_sextet n =
     (if 65 \<le> n \<and> n \<le> 90 then Some (n - 65)
      else if 97 \<le> n \<and> n \<le> 122 then Some (n - 71)
      else if 48 \<le> n \<and> n \<le> 57 then Some (n + 4)
      else if n = 43 then Some 62
      else if n = 47 then Some 63
      else None)"

definition b64_value :: "char \<Rightarrow> nat option" where
  "b64_value c = b64_sextet (of_char c)"

definition b64_quantum :: "nat \<Rightarrow> nat \<Rightarrow> nat \<Rightarrow> nat \<Rightarrow> nat" where
  "b64_quantum a b c d = ((a * 64 + b) * 64 + c) * 64 + d"

definition byte_char :: "nat \<Rightarrow> char" where
  "byte_char n = Char (odd n) (odd (n div 2)) (odd (n div 4)) (odd (n div 8))
     (odd (n div 16)) (odd (n div 32)) (odd (n div 64)) (odd (n div 128))"

fun b64_quanta :: "string \<Rightarrow> string option" where
  "b64_quanta [] = Some []"
| "b64_quanta [a, b, c, d] =
     (case (b64_value a, b64_value b) of
        (Some x, Some y) \<Rightarrow>
          (if c = CHR ''='' then
             (if d = CHR ''='' then Some [byte_char (b64_quantum x y 0 0 div 65536)] else None)
           else
             (case b64_value c of
                None \<Rightarrow> None
              | Some z \<Rightarrow>
                  (if d = CHR ''='' then
                     Some [byte_char (b64_quantum x y z 0 div 65536),
                           byte_char (b64_quantum x y z 0 div 256)]
                   else
                     (case b64_value d of
                        None \<Rightarrow> None
                      | Some w \<Rightarrow>
                          Some [byte_char (b64_quantum x y z w div 65536),
                                byte_char (b64_quantum x y z w div 256),
                                byte_char (b64_quantum x y z w)]))))
      | _ \<Rightarrow> None)"
| "b64_quanta (a # b # c # d # src) =
     (case (b64_value a, b64_value b, b64_value c, b64_value d) of
        (Some x, Some y, Some z, Some w) \<Rightarrow>
          map_option
            (\<lambda>bytes. byte_char (b64_quantum x y z w div 65536) #
                      byte_char (b64_quantum x y z w div 256) #
                      byte_char (b64_quantum x y z w) # bytes)
            (b64_quanta src)
      | _ \<Rightarrow> None)"
| "b64_quanta src = None"

definition base64_DecodeString :: "string \<Rightarrow> string option" where
  "base64_DecodeString s = b64_quanta (filter (\<lambda>c. c \<noteq> CHR 0x0A \<and> c \<noteq> CHR 0x0D) s)"

definition is_ws :: "char \<Rightarrow> bool" where
  "is_ws c = (c = CHR '' '' \<or> c = CHR 0x09 \<or> c = CHR 0x0A \<or> c = CHR 0x0D)"

fun skip_ws :: "string \<Rightarrow> string" where
  "skip_ws [] = []"
| "skip_ws (c # cs) = (if is_ws c then skip_ws cs else c # cs)"

text \<open>The characters of a string up to its closing quote, and the rest of the text.\<close>

fun json_string :: "string \<Rightarrow> (string \<times> string) option" where
  "json_string [] = None"
| "json_string (c # cs) =
     (if c = CHR 0x22 then Some ([], cs)
      else if c = CHR 0x5C then None
      else map_option (\<lambda>(s, r). (c # s, r)) (json_string cs))"

definition is_digit :: "char \<Rightarrow> bool" where
  "is_digit c = (c \<in> set ''0123456789'')"

definition json_number :: "string \<Rightarrow> (string \<times> string) option" where
  "json_number s =
     (let (sign, r) =
            (case s of
               c # cs \<Rightarrow> if c = CHR ''-'' then ([c], cs) else ([], s)
             | [] \<Rightarrow> ([], s));
          ds = takeWhile is_digit r;
          r' = dropWhile is_digit r
      in if ds = [] \<or> (length ds > 1 \<and> hd ds = CHR ''0'') then None
         else
           (case r' of
              [] \<Rightarrow> Some (sign @ ds, r')
            | c # cs \<Rightarrow> if c \<in> set ''.eE'' then None else Some (sign @ ds, r')))"

text \<open>
  The reader recurses on a bound of the number of calls, which the length of the text
  is; a later member of an object replaces an earlier one of the same key, as in a Go
  map.
\<close>

fun json_value :: "nat \<Rightarrow> string \<Rightarrow> (json \<times> string) option"
  and json_elements :: "nat \<Rightarrow> string \<Rightarrow> (json list \<times> string) option"
  and json_members :: "nat \<Rightarrow> string \<Rightarrow> (jobject \<times> string) option" where
  "json_value 0 s = None"
| "json_value (Suc n) s =
     (case skip_ws s of
        [] \<Rightarrow> None
      | c # cs \<Rightarrow>
          if c = CHR ''{'' then
            (case skip_ws cs of
               [] \<Rightarrow> None
             | d # ds \<Rightarrow>
                 if d = CHR ''}'' then Some (JObject [], ds)
                 else map_option (\<lambda>(m, r). (JObject m, r)) (json_members n (d # ds)))
          else if c = CHR ''['' then
            (case skip_ws cs of
               [] \<Rightarrow> None
             | d # ds \<Rightarrow>
                 if d = CHR '']'' then Some (JArray [], ds)
                 else map_option (\<lambda>(vs, r). (JArray vs, r)) (json_elements n (d # ds)))
          else if c = CHR 0x22 then map_option (\<lambda>(v, r). (JString v, r)) (json_string cs)
          else if HasPrefix (c # cs) ''true'' then Some (JBool True, drop 4 (c # cs))
          else if HasPrefix (c # cs) ''false'' then Some (JBool False, drop 5 (c # cs))
          else if HasPrefix (c # cs) ''null'' then Some (JNull, drop 4 (c # cs))
          else map_option (\<lambda>(v, r). (JNumber v, r)) (json_number (c # cs)))"
| "json_elements 0 s = None"
| "json_elements (Suc n) s =
     (case json_value n s of
        None \<Rightarrow> None
      | Some (v, r) \<Rightarrow>
          (case skip_ws r of
             [] \<Rightarrow> None
           | c # cs \<Rightarrow>
               if c = CHR '','' then map_option (\<lambda>(vs, r'). (v # vs, r')) (json_elements n cs)
               else if c = CHR '']'' then Some ([v], cs)
               else None))"
| "json_members 0 s = None"
| "json_members (Suc n) s =
     (case skip_ws s of
        [] \<Rightarrow> None
      | q # s1 \<Rightarrow>
          if q \<noteq> CHR 0x22 then None
          else
            (case json_string s1 of
               None \<Rightarrow> None
             | Some (k, s2) \<Rightarrow>
                 (case skip_ws s2 of
                    [] \<Rightarrow> None
                  | c # s3 \<Rightarrow>
                      if c \<noteq> CHR '':'' then None
                      else
                        (case json_value n s3 of
                           None \<Rightarrow> None
                         | Some (v, s4) \<Rightarrow>
                             (case skip_ws s4 of
                                [] \<Rightarrow> None
                              | d # s5 \<Rightarrow>
                                  if d = CHR '','' then
                                    map_option
                                      (\<lambda>(m, r). (if map_of m k = None then (k, v) # m else m, r))
                                      (json_members n s5)
                                  else if d = CHR ''}'' then Some ([(k, v)], s5)
                                  else None)))))"

definition json_Unmarshal :: "string \<Rightarrow> json option" where
  "json_Unmarshal s =
     (case json_value (length s) s of
        None \<Rightarrow> None
      | Some (v, r) \<Rightarrow> if skip_ws r = [] then Some v else None)"

text \<open>Unmarshalling \<open>null\<close> into a map succeeds and leaves the map \<open>nil\<close>.\<close>

definition JSONObjectOk :: "string \<Rightarrow> jobject option" where
  "JSONObjectOk s =
     (case json_Unmarshal s of
        Some (JObject m) \<Rightarrow> Some m
      | Some JNull \<Rightarrow> Some []
      | _ \<Rightarrow> None)"

definition Bytes32_UnmarshalText :: "string \<Rightarrow> byte list option" where
  "Bytes32_UnmarshalText s =
     (case hexDecodeString (TrimPrefix s ''0x'') of
        None \<Rightarrow> None
      | Some bs \<Rightarrow> if length bs = 32 then Some bs else None)"

fun digits_value :: "nat \<Rightarrow> string \<Rightarrow> nat" where
  "digits_value acc [] = acc"
| "digits_value acc (c # cs) = digits_value (acc * 10 + (of_char c - 48)) cs"

definition parse_int :: "string \<Rightarrow> 64 word" where
  "parse_int s =
     (case s of
        [] \<Rightarrow> 0
      | c # cs \<Rightarrow>
          if c = CHR ''-'' then - of_nat (digits_value 0 cs) else of_nat (digits_value 0 s))"

definition value_int64 :: "json \<Rightarrow> 64 word" where
  "value_int64 v = (case v of JNumber x \<Rightarrow> parse_int x | JString x \<Rightarrow> parse_int x | _ \<Rightarrow> 0)"

definition unmarshal_query_output :: "string \<Rightarrow> error + json" where
  "unmarshal_query_output body =
     (case json_Unmarshal body of
        Some (JObject m) \<Rightarrow> Inr (case map_of m ''result'' of Some v \<Rightarrow> v | None \<Rightarrow> JNull)
      | _ \<Rightarrow> Inl ''json: cannot unmarshal into Go value of type fabric.fabQueryNamedOutput'')"

definition golib :: lib where
  "golib =
     \<lparr>base64Decode = base64_DecodeString,
      jsonObjectOk = JSONObjectOk,
      jsonUnmarshal = json_Unmarshal,
      unmarshalB32 = Bytes32_UnmarshalText,
      otherString = (\<lambda>v. ''''),
      otherStringArray = (\<lambda>v. []),
      toInt64 = value_int64,
      unmarshalQueryOutput = unmarshal_query_output,
      floatToInt = parse_int,
      NewError = (\<lambda>key args. key @ concat (map (\<lambda>a. '' '' @ a) args)),
      SubOptsFirstEventOldest = ''oldest''\<rparr>"

section \<open>Example inputs\<close>

text \<open>
  A BatchPin event as FabConnect delivers it: the payload is the base64 text of the JSON
  object that the chaincode emitted, here with two contexts. \<open>pin_output\<close> is that
  object, \<open>pin_event\<close> and \<open>pin_batch\<close> are what the connector makes of the message.
  \<open>action_payload\<close> is the payload of a network action.
\<close>

definition pin_payload :: string where
  "pin_payload =
     ''eyJzaWduZXIiOiJ1MHZnd3U5czAwLXg1MDk6OkNOPXVzZXIyLE9VPWNsaWVudDo6Q049ZmFicmljLWNhLXNlcnZl'' @
     ''ciIsIm5hbWVzcGFjZSI6Im5zMSIsInV1aWRzIjoiMHhlMTlhZjhiMzkwNjA0MDUxODEyZDc1OTdkMTlhZGZiOTg0'' @
     ''N2QzYmZkMDc0MjQ5ZWZiNjVkM2ZlZDE1ZjViMGE2IiwiYmF0Y2hIYXNoIjoiZDcxZWIxMzhkNzRjMjI5YTM4OGVi'' @
     ''MGUxYWJjMDNmNGM3Y2JiMjFkNGZjNGI4MzlmYmYwZWM3M2U0MjYzZjZiZSIsInBheWxvYWRSZWYiOiJRbWY0MTJq'' @
     ''UVppdVZVdGRnbkIzNkZYRlg3eGc1VjZLRWJTSjRkcFF1aGtMeWZEIiwiY29udGV4dHMiOlsiNjhlNGRhNzlmODA1'' @
     ''YmNhNWI5MTJiY2RhOWM2M2QwM2U2ZTg2NzEwOGRhYmI5Yjk0NDEwOWFlYTU0MWVmNTIyYSIsIjE5YjgyMDkzZGU1'' @
     ''Y2U5MmEwMWUzMzMwNDhlODc3ZTIzNzQzNTRiZjg0NmRkMDM0ODY0ZWY2ZmZiZDY0Mzg3NzEiXX0=''"

definition pin_output :: jobject where
  "pin_output =
     [(''signer'', JString ''u0vgwu9s00-x509::CN=user2,OU=client::CN=fabric-ca-server''),
      (''namespace'', JString ''ns1''),
      (''uuids'', JString ''0xe19af8b390604051812d7597d19adfb9847d3bfd074249efb65d3fed15f5b0a6''),
      (''batchHash'', JString ''d71eb138d74c229a388eb0e1abc03f4c7cbb21d4fc4b839fbf0ec73e4263f6be''),
      (''payloadRef'', JString ''Qmf412jQZiuVUtdgnB36FXFX7xg5V6KEbSJ4dpQuhkLyfD''),
      (''contexts'', JArray [JString ''68e4da79f805bca5b912bcda9c63d03e6e867108dabb9b944109aea541ef522a'', JString ''19b82093de5ce92a01e333048e877e2374354bf846dd034864ef6ffbd6438771''])]"

definition action_payload :: string where
  "action_payload =
     ''eyJzaWduZXIiOiJ1MHZnd3U5czAwLXg1MDk6OkNOPXVzZXIyLE9VPWNsaWVudDo6Q049ZmFicmljLWNhLXNlcnZl'' @
     ''ciIsIm5hbWVzcGFjZSI6ImZpcmVmbHk6dGVybWluYXRlIiwidXVpZHMiOiIweDAwMDAwMDAwMDAwMDAwMDAwMDAw'' @
     ''MDAwMDAwMDAwMDAwMDAwMDAwMDAwMDAwMDAwMDAwMDAwMDAwMDAwMDAwMDAiLCJiYXRjaEhhc2giOiIweDAwMDAw'' @
     ''MDAwMDAwMDAwMDAwMDAwMDAwMDAwMDAwMDAwMDAwMDAwMDAwMDAwMDAwMDAwMDAwMDAwMDAwMDAwMDAiLCJwYXls'' @
     ''b2FkUmVmIjoiIiwiY29udGV4dHMiOltdfQ==''"

definition action_output :: jobject where
  "action_output =
     [(''signer'', JString ''u0vgwu9s00-x509::CN=user2,OU=client::CN=fabric-ca-server''),
      (''namespace'', JString ''firefly:terminate''),
      (''uuids'', JString ''0x0000000000000000000000000000000000000000000000000000000000000000''),
      (''batchHash'', JString ''0x0000000000000000000000000000000000000000000000000000000000000000''),
      (''payloadRef'', JString ''''),
      (''contexts'', JArray [])]"

definition pin_msg :: jobject where
  "pin_msg =
     [(''chaincodeId'', JString ''firefly''),
      (''blockNumber'', JNumber ''91''),
      (''transactionId'', JString ''ce79343000e851a0c742f63a733ce19a5f8b9ce1c719b6cecd14f01bcf81fff2''),
      (''transactionIndex'', JNumber ''2''),
      (''eventIndex'', JNumber ''50''),
      (''eventName'', JString ''BatchPin''),
      (''payload'', JString pin_payload),
      (''subId'', JString ''sb-0910f6a8-7bd6-4ced-453e-2db68149ce8e'')]"

definition pin_event :: blockchain_event where
  "pin_event =
     \<lparr>BlockchainTXID = ''ce79343000e851a0c742f63a733ce19a5f8b9ce1c719b6cecd14f01bcf81fff2'',
      Source = ''fabric'',
      Name = ''BatchPin'',
      ProtocolID = ''000000000091/000002/000050'',
      Output = pin_output,
      EventInfo =
        [(''chaincodeId'', JString ''firefly''),
         (''blockNumber'', JNumber ''91''),
         (''transactionId'', JString ''ce79343000e851a0c742f63a733ce19a5f8b9ce1c719b6cecd14f01bcf81fff2''),
         (''transactionIndex'', JNumber ''2''),
         (''eventIndex'', JNumber ''50''),
         (''eventName'', JString ''BatchPin''),
         (''subId'', JString ''sb-0910f6a8-7bd6-4ced-453e-2db68149ce8e'')],
      Timestamp = 0,
      Location = ''chaincode=firefly'',
      Signature = ''BatchPin''\<rparr>"

definition pin_batch :: batch_pin where
  "pin_batch =
     \<lparr>Namespace = ''ns1'',
      TransactionID =
        [0xE1, 0x9A, 0xF8, 0xB3, 0x90, 0x60, 0x40, 0x51, 0x81, 0x2D, 0x75, 0x97,
         0xD1, 0x9A, 0xDF, 0xB9],
      BatchID =
        [0x84, 0x7D, 0x3B, 0xFD, 0x07, 0x42, 0x49, 0xEF, 0xB6, 0x5D, 0x3F, 0xED,
         0x15, 0xF5, 0xB0, 0xA6],
      BatchHash =
        [0xD7, 0x1E, 0xB1, 0x38, 0xD7, 0x4C, 0x22, 0x9A, 0x38, 0x8E, 0xB0, 0xE1,
         0xAB, 0xC0, 0x3F, 0x4C, 0x7C, 0xBB, 0x21, 0xD4, 0xFC, 0x4B, 0x83, 0x9F,
         0xBF, 0x0E, 0xC7, 0x3E, 0x42, 0x63, 0xF6, 0xBE],
      BatchPayloadRef = ''Qmf412jQZiuVUtdgnB36FXFX7xg5V6KEbSJ4dpQuhkLyfD'',
      Contexts =
        [[0x68, 0xE4, 0xDA, 0x79, 0xF8, 0x05, 0xBC, 0xA5, 0xB9, 0x12, 0xBC, 0xDA,
          0x9C, 0x63, 0xD0, 0x3E, 0x6E, 0x86, 0x71, 0x08, 0xDA, 0xBB, 0x9B, 0x94,
          0x41, 0x09, 0xAE, 0xA5, 0x41, 0xEF, 0x52, 0x2A],
         [0x19, 0xB8, 0x20, 0x93, 0xDE, 0x5C, 0xE9, 0x2A, 0x01, 0xE3, 0x33, 0x04,
          0x8E, 0x87, 0x7E, 0x23, 0x74, 0x35, 0x4B, 0xF8, 0x46, 0xDD, 0x03, 0x48,
          0x64, 0xEF, 0x6F, 0xFB, 0xD6, 0x43, 0x87, 0x71]],
      Event = pin_event\<rparr>"

definition signer_ref :: verifier_ref where
  "signer_ref =
     \<lparr>Type = VerifierTypeMSPIdentity,
      Value = ''u0vgwu9s00-x509::CN=user2,OU=client::CN=fabric-ca-server''\<rparr>"

definition counting :: "nat listener" where
  "counting =
     \<lparr>onBlockchainOpUpdate = (\<lambda>nsOpID txState txID msg out s. s + 1),
      onBatchPinComplete = (\<lambda>batch key s. (None, s + 1)),
      onBlockchainNetworkAction = (\<lambda>action event key s. (None, s + 1)),
      onBlockchainEvent = (\<lambda>event s. (None, s + 1))\<rparr>"

definition stopping :: "nat listener" where
  "stopping =
     \<lparr>onBlockchainOpUpdate = (\<lambda>nsOpID txState txID msg out s. s + 1),
      onBatchPinComplete = (\<lambda>batch key s. (Some ''pop'', s + 1)),
      onBlockchainNetworkAction = (\<lambda>action event key s. (Some ''pop'', s + 1)),
      onBlockchainEvent = (\<lambda>event s. (Some ''pop'', s + 1))\<rparr>"

text \<open>A listener that adds 10 for an operation that succeeded and 100 for one that failed.\<close>

definition tallying :: "nat listener" where
  "tallying =
     \<lparr>onBlockchainOpUpdate =
        (\<lambda>nsOpID txState txID msg out s. s + (if txState = OpStatusSucceeded then 10 else 100)),
      onBatchPinComplete = (\<lambda>batch key s. (None, s)),
      onBlockchainNetworkAction = (\<lambda>action event key s. (None, s)),
      onBlockchainEvent = (\<lambda>event s. (None, s))\<rparr>"

definition fabric0 :: "nat listener list \<Rightarrow> nat fabric" where
  "fabric0 ls =
     \<lparr>topic = ''topic1'',
      defaultChannel = ''firefly'',
      signer = ''signer001'',
      streamID = ''es-12345'',
      fireflyContract =
        \<lparr>chaincode = ''firefly'', fromBlock = ''0'', networkVersion = 1,
         subscription = ''sb-0910f6a8-7bd6-4ced-453e-2db68149ce8e''\<rparr>,
      callbacks = ls,
      FabconnectConfigChaincodeDeprecated = '''',
      contractConf =
        (\<lambda>i. if i = 0 then \<lparr>FireFlyContractChaincode = ''firefly'', FireFlyContractFromBlock = ''0''\<rparr>
             else if i = 1 then
               \<lparr>FireFlyContractChaincode = ''firefly2'', FireFlyContractFromBlock = ''oldest''\<rparr>
             else \<lparr>FireFlyContractChaincode = '''', FireFlyContractFromBlock = ''''\<rparr>),
      contractConfSize = 2\<rparr>"

definition host0 :: "nat host" where
  "host0 = \<lparr>calls = [], hstate = 0\<rparr>"

definition action_msg :: jobject where
  "action_msg =
     [(''chaincodeId'', JString ''firefly''),
      (''blockNumber'', JNumber ''91''),
      (''transactionId'', JString ''ce79343000e851a0c742f63a733ce19a5f8b9ce1c719b6cecd14f01bcf81fff2''),
      (''transactionIndex'', JNumber ''2''),
      (''eventIndex'', JNumber ''50''),
      (''eventName'', JString ''BatchPin''),
      (''payload'', JString action_payload),
      (''subId'', JString ''sb-0910f6a8-7bd6-4ced-453e-2db68149ce8e'')]"

definition action_event :: blockchain_event where
  "action_event = pin_event\<lparr>Output := action_output\<rparr>"

text \<open>
  An event of a custom contract listener, with the payload \<open>{}\<close>; the same message with
  a payload that is not base64 text; and the frame that carries the first.
\<close>

definition custom_msg :: jobject where
  "custom_msg =
     [(''subId'', JString ''sb-custom''),
      (''eventName'', JString ''Changed''),
      (''payload'', JString ''e30='')]"

definition custom_event :: blockchain_event where
  "custom_event =
     \<lparr>BlockchainTXID = '''',
      Source = ''fabric'',
      Name = ''Changed'',
      ProtocolID = ''000000000000/000000/000000'',
      Output = [],
      EventInfo = [(''subId'', JString ''sb-custom''), (''eventName'', JString ''Changed'')],
      Timestamp = 0,
      Location = ''chaincode='',
      Signature = ''Changed''\<rparr>"

definition undecodable_msg :: jobject where
  "undecodable_msg =
     [(''subId'', JString ''sb-custom''),
      (''eventName'', JString ''Changed''),
      (''payload'', JString ''!'')]"

definition custom_frame :: string where
  \<open>custom_frame = ''[{"subId":"sb-custom","eventName":"Changed","payload":"e30="}]''\<close>

text \<open>Receipts: a success, a failure, and one without a request identifier.\<close>

definition receipt_ok :: jobject where
  "receipt_ok =
     [(''headers'', JObject [(''requestId'', JString ''ns1:4603a151''),
                            (''type'', JString ''TransactionSuccess'')]),
      (''transactionId'', JString ''71a38acb7a5d4a97'')]"

definition receipt_failed :: jobject where
  "receipt_failed =
     [(''headers'', JObject [(''requestId'', JString ''ns1:3a37b17b''),
                            (''type'', JString ''Error'')]),
      (''errorMessage'', JString ''Packing arguments for method PinBatch'')]"

definition receipt_anonymous :: jobject where
  "receipt_anonymous =
     [(''headers'', JObject [(''type'', JString ''TransactionSuccess'')]),
      (''transactionId'', JString ''71a38acb7a5d4a97'')]"

text \<open>
  A FabConnect that knows the chaincode \<open>firefly2\<close> at version 2 and answers for any
  other that the function is not found; one that cannot be reached; two contracts
  records; and a termination event of a chaincode that is no longer active.
\<close>

definition fabconnect :: remote where
  \<open>fabconnect =
     \<lparr>ensureFireFlySubscription = (\<lambda>loc fromBlockId stream eventName. Inr ''sb-next''),
      postQuery =
        (\<lambda>req. if reqChaincode req = ''firefly2'' then HttpResponse True ''{"result":2}''
              else HttpResponse False ''Function NetworkVersion not found''),
      wrapError =
        (\<lambda>res. ''FF10284: Error from fabconnect: '' @
              (case res of HttpResponse ok body \<Rightarrow> body | HttpError e \<Rightarrow> e))\<rparr>\<close>

definition unreachable :: remote where
  "unreachable = fabconnect\<lparr>postQuery := (\<lambda>req. HttpError ''connection refused'')\<rparr>"

definition contracts0 :: FireFlyContracts where
  "contracts0 =
     \<lparr>Active = \<lparr>Index = 0, FinalEvent = '''',
                Info = [(''chaincode'', JString ''firefly''), (''fromBlock'', JString ''0''),
                        (''subscription'',
                         JString ''sb-0910f6a8-7bd6-4ced-453e-2db68149ce8e'')]\<rparr>,
      Terminated = []\<rparr>"

definition contracts1 :: FireFlyContracts where
  "contracts1 = contracts0\<lparr>Active := (Active contracts0)\<lparr>Index := 1\<rparr>\<rparr>"

definition stale_event :: blockchain_event where
  "stale_event = pin_event\<lparr>EventInfo := [(''chaincodeId'', JString ''firefly0'')]\<rparr>"

text \<open>
  The contracts records after the termination of \<open>contracts0\<close> and of \<open>contracts1\<close>, the
  event loop before its first observation, and the call that the custom event leads to.
\<close>

definition rolled0 :: FireFlyContracts where
  "rolled0 =
     \<lparr>Active = \<lparr>Index = 1, FinalEvent = '''',
                Info = [(''chaincode'', JString ''firefly2''), (''fromBlock'', JString ''oldest''),
                        (''subscription'', JString ''sb-next'')]\<rparr>,
      Terminated = [(Active contracts0)\<lparr>FinalEvent := ''000000000091/000002/000050''\<rparr>]\<rparr>"

definition rolled1 :: FireFlyContracts where
  "rolled1 =
     \<lparr>Active = \<lparr>Index = 2, FinalEvent = '''', Info = []\<rparr>,
      Terminated = [(Active contracts1)\<lparr>FinalEvent := ''000000000091/000002/000050''\<rparr>]\<rparr>"

definition idle :: "nat loop_state" where
  "idle = \<lparr>sent = [], host = host0\<rparr>"

definition custom_call :: call where
  "custom_call = CallBlockchainEvent \<lparr>EmbeddedEvent = custom_event, Subscription = ''sb-custom''\<rparr>"

section \<open>Properties\<close>

subsection \<open>Auxiliary facts\<close>

lemma GetString_delete:
  "key \<noteq> k \<Longrightarrow> GetString L (AList.delete k jd) key = GetString L jd key"
  by (simp add: GetString_def map_of_delete)

lemma unmarshalContexts_all2:
  "list_all2 (\<lambda>s h. unmarshalB32 L s = Some h) ss hs \<Longrightarrow> unmarshalContexts L ss = Some hs"
  by (induction ss hs rule: list_all2_induct) auto

lemma unmarshalContexts_Some:
  "unmarshalContexts L ss = Some hs \<Longrightarrow> list_all2 (\<lambda>s h. unmarshalB32 L s = Some h) ss hs"
  by (induction ss arbitrary: hs) (auto split: option.splits)

lemma stringElements_map: "stringElements (map JString ss) = Some ss"
  by (induction ss) auto

lemma GetStringArray_strings:
  "map_of jd key = Some (JArray (map JString ss)) \<Longrightarrow> GetStringArray L jd key = ss"
  by (simp add: GetStringArray_def stringElements_map)

lemma callbacks_BatchPinComplete_calls:
  "callbacks_BatchPinComplete ls batch key h = (r, h') \<Longrightarrow>
     calls h' = calls h @ [(CallBatchPinComplete batch key, r)]"
  by (auto simp: callbacks_BatchPinComplete_def split: prod.splits)

lemma callbacks_BlockchainNetworkAction_calls:
  "callbacks_BlockchainNetworkAction ls action event key h = (r, h') \<Longrightarrow>
     calls h' = calls h @ [(CallBlockchainNetworkAction action event key, r)]"
  by (auto simp: callbacks_BlockchainNetworkAction_def split: prod.splits)

lemma callbacks_BlockchainEvent_calls:
  "callbacks_BlockchainEvent ls event h = (r, h') \<Longrightarrow>
     calls h' = calls h @ [(CallBlockchainEvent event, r)]"
  by (auto simp: callbacks_BlockchainEvent_def split: prod.splits)

lemma handleBatchPinEvent_calls:
  "handleBatchPinEvent L f msgJSON h = (r, h') \<Longrightarrow>
     (r = None \<and> h' = h) \<or> (\<exists>c. calls h' = calls h @ [(c, r)])"
  by (auto simp: handleBatchPinEvent_def Let_def
      dest: callbacks_BatchPinComplete_calls callbacks_BlockchainNetworkAction_calls
      split: option.splits if_splits)

lemma handleContractEvent_calls:
  "handleContractEvent L f msgJSON h = (r, h') \<Longrightarrow>
     (r = None \<and> h' = h) \<or> (\<exists>c. calls h' = calls h @ [(c, r)])"
  by (auto simp: handleContractEvent_def dest: callbacks_BlockchainEvent_calls
      split: option.splits)

lemma handleMessageBatch_calls:
  "handleMessageBatch L f messages h = (r, h') \<Longrightarrow>
     \<exists>new. calls h' = calls h @ new \<and>
       (case r of
          None \<Rightarrow> quiet new
        | Some e \<Rightarrow> \<exists>c pre. new = pre @ [(c, Some e)] \<and> quiet pre)"
proof (induction L f messages h arbitrary: r h' rule: handleMessageBatch.induct)
  case (1 L f h)
  then show ?case by (simp add: quiet_def)
next
  case (2 L f msgJSON messages h)
  let ?sub = "GetString L msgJSON ''subId''"
  let ?name = "GetString L msgJSON ''eventName''"
  show ?case
  proof (cases "?sub = subscription (fireflyContract f)")
    case True
    show ?thesis
    proof (cases "?name = broadcastBatchEventName")
      case False
      with True 2 show ?thesis by (simp add: Let_def)
    next
      case pin: True
      obtain r1 h1 where step: "handleBatchPinEvent L f msgJSON h = (r1, h1)"
        by (cases "handleBatchPinEvent L f msgJSON h") auto
      from handleBatchPinEvent_calls [OF step]
      have one: "(r1 = None \<and> h1 = h) \<or> (\<exists>c. calls h1 = calls h @ [(c, r1)])" .
      show ?thesis
      proof (cases r1)
        case (Some e)
        with "2.prems" True pin step have res: "r = Some e" "h' = h1"
          by (simp_all add: Let_def)
        from one Some obtain c where "calls h1 = calls h @ [(c, Some e)]" by auto
        with res show ?thesis by (auto simp: quiet_def intro: exI [of _ "[]"])
      next
        case None
        with "2.prems" True pin step have rest: "handleMessageBatch L f messages h1 = (r, h')"
          by (simp add: Let_def)
        from "2.IH"(1) [OF refl refl refl True pin step [symmetric] _ rest] None
        obtain new where new: "calls h' = calls h1 @ new"
          "(case r of None \<Rightarrow> quiet new
            | Some e \<Rightarrow> \<exists>c pre. new = pre @ [(c, Some e)] \<and> quiet pre)"
          by auto
        from one None have "calls h1 = calls h \<or> (\<exists>c. calls h1 = calls h @ [(c, None)])"
          by auto
        then show ?thesis
        proof
          assume "calls h1 = calls h"
          with new show ?thesis by auto
        next
          assume "\<exists>c. calls h1 = calls h @ [(c, None)]"
          then obtain c where c: "calls h1 = calls h @ [(c, None)]" ..
          show ?thesis
          proof (cases r)
            case None
            with new c show ?thesis
              by (auto simp: quiet_def intro!: exI [of _ "(c, None) # new"])
          next
            case (Some e)
            with new obtain c' pre where "new = pre @ [(c', Some e)]" "quiet pre" by auto
            with c new(1) Some show ?thesis
              by (auto simp: quiet_def intro!: exI [of _ "(c, None) # pre"])
          qed
        qed
      qed
    qed
  next
    case False
    obtain r1 h1 where step: "handleContractEvent L f msgJSON h = (r1, h1)"
      by (cases "handleContractEvent L f msgJSON h") auto
    from handleContractEvent_calls [OF step]
    have one: "(r1 = None \<and> h1 = h) \<or> (\<exists>c. calls h1 = calls h @ [(c, r1)])" .
    show ?thesis
    proof (cases r1)
      case (Some e)
      with "2.prems" False step have res: "r = Some e" "h' = h1"
        by (simp_all add: Let_def)
      from one Some obtain c where "calls h1 = calls h @ [(c, Some e)]" by auto
      with res show ?thesis by (auto simp: quiet_def intro: exI [of _ "[]"])
    next
      case None
      with "2.prems" False step have rest: "handleMessageBatch L f messages h1 = (r, h')"
        by (simp add: Let_def)
      from "2.IH"(3) [OF refl refl refl False step [symmetric] _ rest] None
      obtain new where new: "calls h' = calls h1 @ new"
        "(case r of None \<Rightarrow> quiet new
          | Some e \<Rightarrow> \<exists>c pre. new = pre @ [(c, Some e)] \<and> quiet pre)"
        by auto
      from one None have "calls h1 = calls h \<or> (\<exists>c. calls h1 = calls h @ [(c, None)])"
        by auto
      then show ?thesis
      proof
        assume "calls h1 = calls h"
        with new show ?thesis by auto
      next
        assume "\<exists>c. calls h1 = calls h @ [(c, None)]"
        then obtain c where c: "calls h1 = calls h @ [(c, None)]" ..
        show ?thesis
        proof (cases r)
          case None
          with new c show ?thesis
            by (auto simp: quiet_def intro!: exI [of _ "(c, None) # new"])
        next
          case (Some e)
          with new obtain c' pre where "new = pre @ [(c', Some e)]" "quiet pre" by auto
          with c new(1) Some show ?thesis
            by (auto simp: quiet_def intro!: exI [of _ "(c, None) # pre"])
        qed
      qed
    qed
  qed
qed (simp_all add: quiet_def)

lemma handleMessageBatch_error_iff:
  assumes "handleMessageBatch L f messages h = (r, h')"
  shows "(r = Some e) = (\<exists>c. (c, Some e) \<in> set (new_calls h h'))"
proof -
  from handleMessageBatch_calls [OF assms]
  obtain new where new: "calls h' = calls h @ new"
    and shape: "(case r of
          None \<Rightarrow> quiet new
        | Some e \<Rightarrow> \<exists>c pre. new = pre @ [(c, Some e)] \<and> quiet pre)"
    by auto
  have nc: "new_calls h h' = new"
    by (simp add: new_calls_def new)
  show ?thesis
  proof (cases r)
    case None
    with shape have "quiet new" by simp
    then have "\<And>c. (c, Some e) \<notin> set new"
      by (auto simp: quiet_def list_all_iff)
    with None nc show ?thesis by simp
  next
    case (Some e')
    with shape obtain c pre where n: "new = pre @ [(c, Some e')]" and q: "quiet pre" by auto
    from q have "\<And>c x. (c, Some x) \<notin> set pre"
      by (auto simp: quiet_def list_all_iff)
    with n Some nc show ?thesis by auto
  qed
qed

lemma eventLoop_append:
  "eventLoop L f (xs @ ys) st =
     (case eventLoop L f xs st of
        (Running, st') \<Rightarrow> eventLoop L f ys st'
      | (Closed, st') \<Rightarrow> (Closed, st'))"
  by (induction L f xs st rule: eventLoop.induct)
     (auto split: option.splits json.splits prod.splits)

lemma eventLoop_sent:
  "eventLoop L f obs st = (status, st') \<Longrightarrow> \<exists>more. sent st' = sent st @ more"
  by (induction L f obs st arbitrary: status st' rule: eventLoop.induct)
     (fastforce split: option.splits json.splits prod.splits)+

lemma handleBatchPinEvent_skips:
  assumes "parseBlockchainEvent L msgJSON = None
     \<or> (\<exists>event. parseBlockchainEvent L msgJSON = Some event
          \<and> \<not> HasPrefix (GetString L (Output event) ''namespace'') FireFlyActionPrefix
          \<and> (hexDecodeString (TrimPrefix (GetString L (Output event) ''uuids'') ''0x'') = None
             \<or> (\<exists>bs. hexDecodeString (TrimPrefix (GetString L (Output event) ''uuids'') ''0x'')
                        = Some bs \<and> length bs \<noteq> 32)
             \<or> unmarshalB32 L (GetString L (Output event) ''batchHash'') = None
             \<or> unmarshalContexts L (GetStringArray L (Output event) ''contexts'') = None))"
  shows "handleBatchPinEvent L f msgJSON h = (None, h)"
  using assms by (auto simp: handleBatchPinEvent_def Let_def split: option.splits)

lemma handleMessageBatch_skips:
  assumes "GetString L msgJSON ''subId'' = subscription (fireflyContract f)"
    and "GetString L msgJSON ''eventName'' = ''BatchPin''"
    and "handleBatchPinEvent L f msgJSON h = (None, h)"
  shows "handleMessageBatch L f (JObject msgJSON # messages) h =
           handleMessageBatch L f messages h"
  using assms by (simp add: Let_def broadcastBatchEventName_def)

lemma ConfigureContract_Index:
  "ConfigureContract L R f c = (res, f', c') \<Longrightarrow>
     Index (Active c') = Index (Active c) \<and> FinalEvent (Active c') = FinalEvent (Active c)
     \<and> Terminated c' = Terminated c"
  by (auto simp: ConfigureContract_def Let_def
      split: sum.splits prod.splits outcome.splits option.splits)

lemma ConfigureContract_failed:
  "ConfigureContract L R f c = (res, f', c') \<Longrightarrow> res \<noteq> Returns None \<Longrightarrow> f' = f \<and> c' = c"
  by (auto simp: ConfigureContract_def Let_def
      split: sum.splits prod.splits outcome.splits option.splits)

lemma ConfigureContract_succeeded:
  "ConfigureContract L R f c = (Returns None, f', c') \<Longrightarrow>
     \<exists>cc fb subID version.
       resolveFireFlyContract L f (Index (Active c)) = Inr (cc, fb)
       \<and> ensureFireFlySubscription R \<lparr>Channel = defaultChannel f, Chaincode = cc\<rparr> fb
             (streamID f) batchPinEvent = Inr subID
       \<and> getNetworkVersion L R f cc = Returns (version, None)
       \<and> fireflyContract f' = \<lparr>chaincode = cc, fromBlock = fb, networkVersion = version,
                                subscription = subID\<rparr>
       \<and> Info (Active c') =
           [(''chaincode'', JString cc), (''fromBlock'', JString fb),
            (''subscription'', JString subID)]"
  by (auto simp: ConfigureContract_def Let_def
      split: sum.splits prod.splits outcome.splits option.splits)

lemma TerminateContract_matching:
  assumes "GetString L (EventInfo termination) ''chaincodeId'' = chaincode (fireflyContract f)"
  shows "TerminateContract L R f contracts termination =
     ConfigureContract L R f
       \<lparr>Active = \<lparr>Index = Index (Active contracts) + 1, FinalEvent = '''', Info = []\<rparr>,
        Terminated = Terminated contracts @
          [(Active contracts)\<lparr>FinalEvent := ProtocolID termination\<rparr>]\<rparr>"
  using assms by (cases contracts) (simp add: TerminateContract_def Let_def)

lemma resolveFireFlyContract_bad_index:
  "0 < sint (contractConfSize f) \<or> 0 < sint i \<Longrightarrow> sint (contractConfSize f) \<le> sint i \<Longrightarrow>
     resolveFireFlyContract L f i =
       Inl (NewError L ''MsgInvalidFireFlyContractIndex''
              [''blockchain.fabric.fireflyContract['' @ sprintf_d 1 i @ '']''])"
  by (simp add: resolveFireFlyContract_def)

lemma listeners_BlockchainOpUpdate_foldl:
  "listeners_BlockchainOpUpdate ls nsOpID txState blockchainTXID errorMessage opOutput s =
     foldl (\<lambda>s cb. onBlockchainOpUpdate cb nsOpID txState blockchainTXID errorMessage opOutput s)
       s ls"
  by (induction ls arbitrary: s) simp_all

subsection \<open>The examples, evaluated\<close>

lemma golib_sel:
  "base64Decode golib = base64_DecodeString"
  "jsonObjectOk golib = JSONObjectOk"
  "jsonUnmarshal golib = json_Unmarshal"
  "unmarshalB32 golib = Bytes32_UnmarshalText"
  "otherString golib = (\<lambda>v. [])"
  "otherStringArray golib = (\<lambda>v. [])"
  "toInt64 golib = value_int64"
  "unmarshalQueryOutput golib = unmarshal_query_output"
  "floatToInt golib = parse_int"
  "SubOptsFirstEventOldest golib = ''oldest''"
  by (simp_all add: golib_def)

lemmas codec_simps =
  base64_DecodeString_def b64_value_def b64_sextet_def b64_quantum_def byte_char_def
  JSONObjectOk_def json_Unmarshal_def is_ws_def json_number_def is_digit_def HasPrefix_def

lemma replicate_numeral: "replicate (numeral k) x = x # replicate (pred_numeral k) x"
  by (simp add: numeral_eq_Suc)

lemma pin_payload_decoded: "decodeJSONPayload golib pin_payload = Some pin_output"
  by (simp add: decodeJSONPayload_def pin_payload_def pin_output_def golib_sel codec_simps)

lemma pin_msg_parsed: "parseBlockchainEvent golib pin_msg = Some pin_event"
  by (simp add: parseBlockchainEvent_def pin_msg_def pin_event_def GetString_def GetInt64_def
      pin_payload_decoded sprintf_d_def Let_def
      buildEventLocationString_def golib_sel value_int64_def parse_int_def replicate_numeral)

lemma pin_uuids:
  "hexDecodeString (TrimPrefix (GetString golib pin_output ''uuids'') ''0x'') =
     Some (TransactionID pin_batch @ BatchID pin_batch)"
  by (simp add: pin_output_def pin_batch_def GetString_def TrimPrefix_def HasPrefix_def
      fromHexChar_def)

lemma pin_hash:
  "unmarshalB32 golib (GetString golib pin_output ''batchHash'') = Some (BatchHash pin_batch)"
  by (simp add: pin_output_def pin_batch_def GetString_def TrimPrefix_def HasPrefix_def
      fromHexChar_def golib_sel Bytes32_UnmarshalText_def)

lemma pin_contexts:
  "list_all2 (\<lambda>s h. unmarshalB32 golib s = Some h)
     [''68e4da79f805bca5b912bcda9c63d03e6e867108dabb9b944109aea541ef522a'',
      ''19b82093de5ce92a01e333048e877e2374354bf846dd034864ef6ffbd6438771'']
     (Contexts pin_batch)"
  by (simp add: pin_batch_def TrimPrefix_def HasPrefix_def fromHexChar_def golib_sel
      Bytes32_UnmarshalText_def)

lemma action_payload_decoded: "decodeJSONPayload golib action_payload = Some action_output"
  by (simp add: decodeJSONPayload_def action_payload_def action_output_def golib_sel codec_simps)

lemma action_msg_parsed: "parseBlockchainEvent golib action_msg = Some action_event"
  by (simp add: parseBlockchainEvent_def action_msg_def action_event_def pin_event_def
      GetString_def GetInt64_def action_payload_decoded sprintf_d_def Let_def
      buildEventLocationString_def golib_sel value_int64_def parse_int_def replicate_numeral)

lemma custom_msg_parsed: "parseBlockchainEvent golib custom_msg = Some custom_event"
  by (simp add: parseBlockchainEvent_def custom_msg_def custom_event_def
      GetString_def GetInt64_def decodeJSONPayload_def sprintf_d_def Let_def
      buildEventLocationString_def golib_sel codec_simps replicate_numeral)

lemma undecodable_msg_parsed: "parseBlockchainEvent golib undecodable_msg = None"
  by (simp add: parseBlockchainEvent_def undecodable_msg_def GetString_def
      decodeJSONPayload_def golib_sel codec_simps)

lemma custom_frame_parsed: "jsonUnmarshal golib custom_frame = Some (JArray [JObject custom_msg])"
  by (simp add: custom_frame_def custom_msg_def golib_sel codec_simps)

lemma fabric0_sel:
  "fireflyContract (fabric0 ls) =
     \<lparr>chaincode = ''firefly'', fromBlock = ''0'', networkVersion = 1,
      subscription = ''sb-0910f6a8-7bd6-4ced-453e-2db68149ce8e''\<rparr>"
  "callbacks (fabric0 ls) = ls"
  "topic (fabric0 ls) = ''topic1''"
  "defaultChannel (fabric0 ls) = ''firefly''"
  "signer (fabric0 ls) = ''signer001''"
  "streamID (fabric0 ls) = ''es-12345''"
  "contractConfSize (fabric0 ls) = 2"
  "FabconnectConfigChaincodeDeprecated (fabric0 ls) = ''''"
  "contractConf (fabric0 ls) 1 =
     \<lparr>FireFlyContractChaincode = ''firefly2'', FireFlyContractFromBlock = ''oldest''\<rparr>"
  by (simp_all add: fabric0_def)

lemma stale_event_chaincode:
  "GetString golib (EventInfo stale_event) ''chaincodeId'' \<noteq> chaincode (fireflyContract (fabric0 []))"
  by (simp add: stale_event_def GetString_def fabric0_sel)

lemma action_event_chaincode:
  "GetString golib (EventInfo action_event) ''chaincodeId'' = chaincode (fireflyContract (fabric0 []))"
  by (simp add: action_event_def pin_event_def GetString_def fabric0_sel)

lemma resolve_next: "resolveFireFlyContract golib (fabric0 []) 1 = Inr (''firefly2'', ''oldest'')"
  by (simp add: resolveFireFlyContract_def fabric0_sel Let_def)

lemma version_next: "getNetworkVersion golib fabconnect (fabric0 []) ''firefly2'' = Returns (2, None)"
  by (simp add: getNetworkVersion_def queryContractMethod_def fabconnect_def fabric0_sel
      IsSuccess_def Body_def golib_sel unmarshal_query_output_def codec_simps parse_int_def
      networkVersionMethodName_def Let_def)

lemma fabconnect_ensure:
  "ensureFireFlySubscription fabconnect loc fromBlockId stream eventName = Inr ''sb-next''"
  "ensureFireFlySubscription unreachable loc fromBlockId stream eventName = Inr ''sb-next''"
  by (simp_all add: fabconnect_def unreachable_def)

lemma terminate0:
  "TerminateContract golib fabconnect (fabric0 []) contracts0 action_event =
     (Returns None,
      (fabric0 [])\<lparr>fireflyContract :=
        \<lparr>chaincode = ''firefly2'', fromBlock = ''oldest'', networkVersion = 2,
         subscription = ''sb-next''\<rparr>\<rparr>,
      rolled0)"
  unfolding TerminateContract_matching [OF action_event_chaincode]
  by (simp add: ConfigureContract_def
      contracts0_def resolve_next version_next fabconnect_ensure fabric0_sel batchPinEvent_def
      rolled0_def action_event_def pin_event_def)

lemma resolve_beyond:
  "resolveFireFlyContract golib (fabric0 []) 2 =
     Inl ''MsgInvalidFireFlyContractIndex blockchain.fabric.fireflyContract[2]''"
  by (simp add: resolveFireFlyContract_def fabric0_sel golib_def sprintf_d_def)

lemma configure_beyond:
  "fst (ConfigureContract golib fabconnect (fabric0 []) rolled1) =
     Returns (Some ''MsgInvalidFireFlyContractIndex blockchain.fabric.fireflyContract[2]'')"
  by (simp add: ConfigureContract_def rolled1_def resolve_beyond)

lemma terminate1:
  "TerminateContract golib fabconnect (fabric0 []) contracts1 action_event =
     (Returns (Some ''MsgInvalidFireFlyContractIndex blockchain.fabric.fireflyContract[2]''),
      fabric0 [], rolled1)"
  unfolding TerminateContract_matching [OF action_event_chaincode]
  by (simp add: ConfigureContract_def contracts1_def contracts0_def resolve_beyond
      rolled1_def action_event_def pin_event_def)

lemma custom_msg_other:
  "GetString golib custom_msg ''subId'' \<noteq> subscription (fireflyContract (fabric0 ls))"
  by (simp add: custom_msg_def GetString_def fabric0_sel)

lemma undecodable_msg_other:
  "GetString golib undecodable_msg ''subId'' \<noteq> subscription (fireflyContract (fabric0 ls))"
  by (simp add: undecodable_msg_def GetString_def fabric0_sel)

lemma custom_msg_sub: "GetString golib custom_msg ''subId'' = ''sb-custom''"
  by (simp add: custom_msg_def GetString_def)

lemma pin_msg_handled:
  "handleBatchPinEvent golib (fabric0 [counting]) pin_msg host0 =
     (None, \<lparr>calls = [(CallBatchPinComplete pin_batch signer_ref, None)], hstate = 1\<rparr>)"
proof -
  have out: "Output pin_event = pin_output"
    by (simp add: pin_event_def)
  have ns: "\<not> HasPrefix (GetString golib pin_output ''namespace'') FireFlyActionPrefix"
    by (simp add: pin_output_def GetString_def HasPrefix_def FireFlyActionPrefix_def)
  have ctx: "unmarshalContexts golib (GetStringArray golib pin_output ''contexts'') =
      Some (Contexts pin_batch)"
    by (rule unmarshalContexts_all2)
       (simp add: pin_output_def GetStringArray_def pin_contexts [simplified])
  have strs: "GetString golib pin_output ''namespace'' = ''ns1''"
    "GetString golib pin_output ''payloadRef'' = ''Qmf412jQZiuVUtdgnB36FXFX7xg5V6KEbSJ4dpQuhkLyfD''"
    "GetString golib pin_output ''signer'' =
       ''u0vgwu9s00-x509::CN=user2,OU=client::CN=fabric-ca-server''"
    by (simp_all add: pin_output_def GetString_def)
  show ?thesis
    using ns
    by (simp add: handleBatchPinEvent_def pin_msg_parsed out pin_uuids pin_hash ctx strs
        Let_def callbacks_BatchPinComplete_def fabric0_sel counting_def host0_def
        signer_ref_def pin_batch_def)
qed

lemma pin_msg_active:
  "GetString golib pin_msg ''subId'' = subscription (fireflyContract (fabric0 ls))"
  "GetString golib pin_msg ''eventName'' = ''BatchPin''"
  by (simp_all add: pin_msg_def GetString_def fabric0_sel)

lemma badjson: \<open>jsonUnmarshal golib ''!badjson'' = None\<close>
  by (simp add: golib_sel codec_simps)

subsection \<open>BatchPin events\<close>

text \<open>
  C1. For a well-formed BatchPin event (the payload decodes, the namespace is not a
  network action, the uuids field is the hexadecimal text of 32 bytes, the batch hash and
  every element of the contexts array are 32-byte hashes), \<open>handleBatchPinEvent\<close> invokes
  \<open>BatchPinComplete\<close> exactly once: the log grows by that one call. Its \<open>TransactionID\<close> is
  the bytes 0 to 15 and its \<open>BatchID\<close> the bytes 16 to 31 of the decoded uuids, its
  \<open>BatchHash\<close> is the decoded batch hash, and its \<open>Contexts\<close> are the decoded elements of
  the contexts array, one for one and in the order of the array (so none for an empty
  array).
\<close>

theorem handleBatchPinEvent_BatchPinComplete:
  assumes parsed: "parseBlockchainEvent L msgJSON = Some event"
    and ns: "\<not> HasPrefix (GetString L (Output event) ''namespace'') FireFlyActionPrefix"
    and uuids: "hexDecodeString (TrimPrefix (GetString L (Output event) ''uuids'') ''0x'') = Some hexUUIDs"
    and len: "length hexUUIDs = 32"
    and hash: "unmarshalB32 L (GetString L (Output event) ''batchHash'') = Some batchHash"
    and arr: "map_of (Output event) ''contexts'' = Some (JArray (map JString sContexts))"
    and ctx: "list_all2 (\<lambda>s h. unmarshalB32 L s = Some h) sContexts contexts"
    and batch: "batch = \<lparr>Namespace = GetString L (Output event) ''namespace'',
                    TransactionID = take 16 hexUUIDs,
                    BatchID = drop 16 hexUUIDs,
                    BatchHash = batchHash,
                    BatchPayloadRef = GetString L (Output event) ''payloadRef'',
                    Contexts = contexts,
                    Event = event\<rparr>"
    and key: "verifier = \<lparr>Type = VerifierTypeMSPIdentity,
                    Value = GetString L (Output event) ''signer''\<rparr>"
  shows "handleBatchPinEvent L f msgJSON h = callbacks_BatchPinComplete (callbacks f) batch verifier h
       \<and> calls (snd (handleBatchPinEvent L f msgJSON h)) =
           calls h @ [(CallBatchPinComplete batch verifier, fst (handleBatchPinEvent L f msgJSON h))]
       \<and> length (Contexts batch) = length sContexts"
proof -
  have sc: "GetStringArray L (Output event) ''contexts'' = sContexts"
    using arr by (rule GetStringArray_strings)
  have uc: "unmarshalContexts L sContexts = Some contexts"
    using ctx by (rule unmarshalContexts_all2)
  have d: "take 16 (drop 16 hexUUIDs) = drop 16 hexUUIDs"
    using len by simp
  have eq: "handleBatchPinEvent L f msgJSON h =
              callbacks_BatchPinComplete (callbacks f) batch verifier h"
    using ns by (simp add: handleBatchPinEvent_def parsed uuids len hash sc uc d batch key Let_def)
  have lg: "calls (snd (callbacks_BatchPinComplete (callbacks f) batch verifier h)) =
              calls h @ [(CallBatchPinComplete batch verifier,
                          fst (callbacks_BatchPinComplete (callbacks f) batch verifier h))]"
    by (simp add: callbacks_BatchPinComplete_def split: prod.splits)
  have ln: "length (Contexts batch) = length sContexts"
    using ctx by (simp add: batch list_all2_lengthD)
  show ?thesis using eq lg ln by simp
qed

theorem handleBatchPinEvent_BatchPinComplete_witness:
  "parseBlockchainEvent golib pin_msg = Some pin_event
   \<and> \<not> HasPrefix (GetString golib (Output pin_event) ''namespace'') FireFlyActionPrefix
   \<and> hexDecodeString (TrimPrefix (GetString golib (Output pin_event) ''uuids'') ''0x'') =
       Some (TransactionID pin_batch @ BatchID pin_batch)
   \<and> length (TransactionID pin_batch @ BatchID pin_batch) = 32
   \<and> unmarshalB32 golib (GetString golib (Output pin_event) ''batchHash'') =
       Some (BatchHash pin_batch)
   \<and> handleBatchPinEvent golib (fabric0 [counting]) pin_msg host0 =
       (None, \<lparr>calls = [(CallBatchPinComplete pin_batch signer_ref, None)], hstate = 1\<rparr>)
   \<and> handleBatchPinEvent golib (fabric0 [stopping, counting]) pin_msg host0 =
       (Some ''pop'', \<lparr>calls = [(CallBatchPinComplete pin_batch signer_ref, Some ''pop'')],
                       hstate = 1\<rparr>)"
proof -
  have out: "Output pin_event = pin_output"
    by (simp add: pin_event_def)
  have ns: "\<not> HasPrefix (GetString golib (Output pin_event) ''namespace'') FireFlyActionPrefix"
    by (simp add: out pin_output_def GetString_def HasPrefix_def FireFlyActionPrefix_def)
  have uuids: "hexDecodeString (TrimPrefix (GetString golib (Output pin_event) ''uuids'') ''0x'') =
      Some (TransactionID pin_batch @ BatchID pin_batch)"
    by (simp add: out pin_uuids)
  have len: "length (TransactionID pin_batch @ BatchID pin_batch) = 32"
    by (simp add: pin_batch_def)
  have hash: "unmarshalB32 golib (GetString golib (Output pin_event) ''batchHash'') =
      Some (BatchHash pin_batch)"
    by (simp add: out pin_hash)
  have arr: "map_of (Output pin_event) ''contexts'' =
      Some (JArray (map JString
        [''68e4da79f805bca5b912bcda9c63d03e6e867108dabb9b944109aea541ef522a'',
         ''19b82093de5ce92a01e333048e877e2374354bf846dd034864ef6ffbd6438771'']))"
    by (simp add: out pin_output_def)
  have batch: "pin_batch =
      \<lparr>Namespace = GetString golib (Output pin_event) ''namespace'',
       TransactionID = take 16 (TransactionID pin_batch @ BatchID pin_batch),
       BatchID = drop 16 (TransactionID pin_batch @ BatchID pin_batch),
       BatchHash = BatchHash pin_batch,
       BatchPayloadRef = GetString golib (Output pin_event) ''payloadRef'',
       Contexts = Contexts pin_batch,
       Event = pin_event\<rparr>"
    by (simp add: out pin_output_def GetString_def pin_batch_def)
  have key: "signer_ref =
      \<lparr>Type = VerifierTypeMSPIdentity, Value = GetString golib (Output pin_event) ''signer''\<rparr>"
    by (simp add: out pin_output_def GetString_def signer_ref_def)
  note run = handleBatchPinEvent_BatchPinComplete
    [OF pin_msg_parsed ns uuids len hash arr pin_contexts batch key]
  have ok: "handleBatchPinEvent golib (fabric0 [counting]) pin_msg host0 =
      (None, \<lparr>calls = [(CallBatchPinComplete pin_batch signer_ref, None)], hstate = 1\<rparr>)"
    using run [of "fabric0 [counting]" host0]
    by (simp add: callbacks_BatchPinComplete_def fabric0_def counting_def host0_def)
  have stop: "handleBatchPinEvent golib (fabric0 [stopping, counting]) pin_msg host0 =
      (Some ''pop'', \<lparr>calls = [(CallBatchPinComplete pin_batch signer_ref, Some ''pop'')],
                      hstate = 1\<rparr>)"
    using run [of "fabric0 [stopping, counting]" host0]
    by (simp add: callbacks_BatchPinComplete_def fabric0_def stopping_def host0_def)
  show ?thesis
    using pin_msg_parsed ns uuids len hash ok stop by simp
qed

text \<open>
  C3. For an event whose decoded namespace begins with \<open>firefly:\<close>,
  \<open>handleBatchPinEvent\<close> invokes \<open>BlockchainNetworkAction\<close> and nothing else: the log grows by
  that one call, whose action is the namespace without the prefix and which carries the
  event and the verifier reference of the signer. \<open>BatchPinComplete\<close> is not invoked.
\<close>

theorem handleBatchPinEvent_network_action:
  assumes parsed: "parseBlockchainEvent L msgJSON = Some event"
    and ns: "HasPrefix (GetString L (Output event) ''namespace'') ''firefly:''"
    and act: "action = drop (length ''firefly:'') (GetString L (Output event) ''namespace'')"
    and key: "verifier = \<lparr>Type = VerifierTypeMSPIdentity,
                    Value = GetString L (Output event) ''signer''\<rparr>"
  shows "GetString L (Output event) ''namespace'' = ''firefly:'' @ action
       \<and> handleBatchPinEvent L f msgJSON h =
           callbacks_BlockchainNetworkAction (callbacks f) action event verifier h
       \<and> calls (snd (handleBatchPinEvent L f msgJSON h)) =
           calls h @ [(CallBlockchainNetworkAction action event verifier,
                       fst (handleBatchPinEvent L f msgJSON h))]"
proof -
  have split: "GetString L (Output event) ''namespace'' = ''firefly:'' @ action"
    using ns unfolding act HasPrefix_def
    by (metis append_take_drop_id)
  have eq: "handleBatchPinEvent L f msgJSON h =
      callbacks_BlockchainNetworkAction (callbacks f) action event verifier h"
    using ns by (simp add: handleBatchPinEvent_def parsed FireFlyActionPrefix_def act key Let_def)
  have lg: "calls (snd (callbacks_BlockchainNetworkAction (callbacks f) action event verifier h)) =
      calls h @ [(CallBlockchainNetworkAction action event verifier,
                  fst (callbacks_BlockchainNetworkAction (callbacks f) action event verifier h))]"
    by (simp add: callbacks_BlockchainNetworkAction_def split: prod.splits)
  show ?thesis using split eq lg by simp
qed

theorem handleBatchPinEvent_network_action_witness:
  "parseBlockchainEvent golib action_msg = Some action_event
   \<and> HasPrefix (GetString golib (Output action_event) ''namespace'') ''firefly:''
   \<and> handleBatchPinEvent golib (fabric0 [counting]) action_msg host0 =
       (None, \<lparr>calls = [(CallBlockchainNetworkAction ''terminate'' action_event signer_ref, None)],
               hstate = 1\<rparr>)"
proof -
  have ns: "HasPrefix (GetString golib (Output action_event) ''namespace'') ''firefly:''"
    by (simp add: action_event_def action_output_def GetString_def HasPrefix_def)
  have act: "''terminate'' =
      drop (length ''firefly:'') (GetString golib (Output action_event) ''namespace'')"
    by (simp add: action_event_def action_output_def GetString_def)
  have key: "signer_ref = \<lparr>Type = VerifierTypeMSPIdentity,
      Value = GetString golib (Output action_event) ''signer''\<rparr>"
    by (simp add: action_event_def action_output_def GetString_def signer_ref_def)
  have run: "handleBatchPinEvent golib (fabric0 [counting]) action_msg host0 =
       (None, \<lparr>calls = [(CallBlockchainNetworkAction ''terminate'' action_event signer_ref, None)],
               hstate = 1\<rparr>)"
    using handleBatchPinEvent_network_action
      [OF action_msg_parsed ns act key, of "fabric0 [counting]" host0]
    by (simp add: callbacks_BlockchainNetworkAction_def fabric0_def counting_def host0_def)
  show ?thesis using action_msg_parsed ns run by simp
qed

subsection \<open>The batch dispatcher and the event loop\<close>

text \<open>
  C2. When the event loop reaches a frame that is a JSON array, it hands the array to
  \<open>handleMessageBatch\<close>. If that returns \<open>nil\<close>, the next frame the loop sends is the ack
  with the configured topic; if it returns an error, the loop is closed at once, having
  sent nothing for the frame, and the host is left as the batch left it. The batch
  returns an error exactly when one of the callbacks it invoked returned that error.
\<close>

theorem eventLoop_ack:
  assumes reach: "eventLoop L f pre st0 = (Running, st)"
    and frame: "jsonUnmarshal L msgBytes = Some (JArray msgTyped)"
    and batch: "handleMessageBatch L f msgTyped (host st) = (r, h')"
    and loop: "eventLoop L f (pre @ Frame msgBytes sendErr # obs) st0 = (status, st')"
  shows "(if r = None then take (Suc (length (sent st))) (sent st') = sent st @ [ack f]
          else status = Closed \<and> sent st' = sent st \<and> host st' = h')
       \<and> ack f = JObject [(''type'', JString ''ack''), (''topic'', JString (topic f))]
       \<and> (\<forall>e. (r = Some e) = (\<exists>c. (c, Some e) \<in> set (new_calls (host st) h')))"
proof -
  have step: "eventLoop L f (Frame msgBytes sendErr # obs) st = (status, st')"
    using loop by (simp add: eventLoop_append reach)
  have first: "if r = None then take (Suc (length (sent st))) (sent st') = sent st @ [ack f]
          else status = Closed \<and> sent st' = sent st \<and> host st' = h'"
  proof (cases r)
    case (Some e)
    with step frame batch show ?thesis by auto
  next
    case None
    show ?thesis
    proof (cases sendErr)
      case (Some e)
      with None step frame batch show ?thesis by auto
    next
      case nosend: None
      with None step frame batch
      have "eventLoop L f obs \<lparr>sent = sent st @ [ack f], host = h'\<rparr> = (status, st')"
        by simp
      from eventLoop_sent [OF this] obtain more where "sent st' = (sent st @ [ack f]) @ more"
        by auto
      with None show ?thesis by simp
    qed
  qed
  show ?thesis
    using first handleMessageBatch_error_iff [OF batch] by (simp add: ack_def)
qed

theorem eventLoop_ack_witness:
  "eventLoop golib (fabric0 [counting]) [Frame ''!badjson'' None] idle = (Running, idle)
   \<and> jsonUnmarshal golib custom_frame = Some (JArray [JObject custom_msg])
   \<and> handleMessageBatch golib (fabric0 [counting]) [JObject custom_msg] host0 =
       (None, \<lparr>calls = [(custom_call, None)], hstate = 1\<rparr>)
   \<and> eventLoop golib (fabric0 [counting])
         ([Frame ''!badjson'' None] @ Frame custom_frame None # [ReceiveClosed]) idle =
       (Closed, \<lparr>sent = [JObject [(''type'', JString ''ack''), (''topic'', JString ''topic1'')]],
                 host = \<lparr>calls = [(custom_call, None)], hstate = 1\<rparr>\<rparr>)
   \<and> handleMessageBatch golib (fabric0 [stopping]) [JObject custom_msg] host0 =
       (Some ''pop'', \<lparr>calls = [(custom_call, Some ''pop'')], hstate = 1\<rparr>)
   \<and> eventLoop golib (fabric0 [stopping])
         ([Frame ''!badjson'' None] @ Frame custom_frame None # [ReceiveClosed]) idle =
       (Closed, \<lparr>sent = [], host = \<lparr>calls = [(custom_call, Some ''pop'')], hstate = 1\<rparr>\<rparr>)
   \<and> (\<exists>c. (c, Some ''pop'') \<in>
          set (new_calls host0 \<lparr>calls = [(custom_call, Some ''pop'')], hstate = 1\<rparr>))"
proof -
  have reach: "eventLoop golib (fabric0 ls) [Frame ''!badjson'' None] idle = (Running, idle)" for ls
    by (simp add: badjson)
  have ok: "handleMessageBatch golib (fabric0 [counting]) [JObject custom_msg] host0 =
       (None, \<lparr>calls = [(custom_call, None)], hstate = 1\<rparr>)"
    using custom_msg_other [of "[counting]"]
    by (simp add: handleContractEvent_def custom_msg_parsed Let_def custom_event_def GetString_def
        callbacks_BlockchainEvent_def fabric0_sel counting_def host0_def custom_call_def)
  have stop: "handleMessageBatch golib (fabric0 [stopping]) [JObject custom_msg] host0 =
       (Some ''pop'', \<lparr>calls = [(custom_call, Some ''pop'')], hstate = 1\<rparr>)"
    using custom_msg_other [of "[stopping]"]
    by (simp add: handleContractEvent_def custom_msg_parsed Let_def custom_event_def GetString_def
        callbacks_BlockchainEvent_def fabric0_sel stopping_def host0_def custom_call_def)
  have host: "host idle = host0" "sent idle = []"
    by (simp_all add: idle_def)
  have loop1: "eventLoop golib (fabric0 [counting])
         ([Frame ''!badjson'' None] @ Frame custom_frame None # [ReceiveClosed]) idle =
       (Closed, \<lparr>sent = [JObject [(''type'', JString ''ack''), (''topic'', JString ''topic1'')]],
                 host = \<lparr>calls = [(custom_call, None)], hstate = 1\<rparr>\<rparr>)"
    by (simp add: badjson custom_frame_parsed host ok ack_def fabric0_sel
        del: handleMessageBatch.simps)
  have loop2: "eventLoop golib (fabric0 [stopping])
         ([Frame ''!badjson'' None] @ Frame custom_frame None # [ReceiveClosed]) idle =
       (Closed, \<lparr>sent = [], host = \<lparr>calls = [(custom_call, Some ''pop'')], hstate = 1\<rparr>\<rparr>)"
    by (simp add: badjson custom_frame_parsed host stop idle_def
        del: handleMessageBatch.simps)
  note a = eventLoop_ack [OF reach custom_frame_parsed ok [folded host(1)] loop1]
  note b = eventLoop_ack [OF reach custom_frame_parsed stop [folded host(1)] loop2]
  have "(Some ''pop'' = Some ''pop'') =
      (\<exists>c. (c, Some ''pop'') \<in>
         set (new_calls (host idle) \<lparr>calls = [(custom_call, Some ''pop'')], hstate = 1\<rparr>))"
    by (rule b [THEN conjunct2, THEN conjunct2, THEN spec])
  then have "\<exists>c. (c, Some ''pop'') \<in>
          set (new_calls host0 \<lparr>calls = [(custom_call, Some ''pop'')], hstate = 1\<rparr>)"
    by (simp add: host)
  with a reach [of "[counting]"] custom_frame_parsed ok loop1 stop loop2 show ?thesis
    by simp
qed

text \<open>
  C4, as amended. When the batch loop reaches a message whose subscription is not the
  active BatchPin subscription: if the payload of the message decodes, the connector
  invokes \<open>BlockchainEvent\<close> with the event and that subscription, and goes on with the
  rest of the batch unless the callback failed; if the payload does not decode, the
  message is skipped without any callback. \<open>BatchPinComplete\<close> is invoked in neither case.
  The claim as stated, that \<open>BlockchainEvent\<close> is invoked for every such message, fails for
  a message whose payload is not base64 text.
\<close>

theorem handleMessageBatch_other_subscription:
  assumes other: "GetString L msgJSON ''subId'' \<noteq> subscription (fireflyContract f)"
  shows "handleMessageBatch L f (JObject msgJSON # messages) h =
     (case parseBlockchainEvent L msgJSON of
        None \<Rightarrow> handleMessageBatch L f messages h
      | Some event \<Rightarrow>
          (case callbacks_BlockchainEvent (callbacks f)
                  \<lparr>EmbeddedEvent = event, Subscription = GetString L msgJSON ''subId''\<rparr> h of
             (Some err, h') \<Rightarrow> (Some err, h')
           | (None, h') \<Rightarrow> handleMessageBatch L f messages h'))
     \<and> (case parseBlockchainEvent L msgJSON of
          None \<Rightarrow> True
        | Some event \<Rightarrow>
            \<exists>r rest. new_calls h (snd (handleMessageBatch L f (JObject msgJSON # messages) h)) =
              (CallBlockchainEvent
                 \<lparr>EmbeddedEvent = event, Subscription = GetString L msgJSON ''subId''\<rparr>, r) # rest)"
proof (cases "parseBlockchainEvent L msgJSON")
  case None
  with other show ?thesis by (simp add: Let_def handleContractEvent_def)
next
  case (Some event)
  let ?ev = "\<lparr>EmbeddedEvent = event, Subscription = GetString L msgJSON ''subId''\<rparr>"
  from Some have "EventInfo event = AList.delete ''payload'' msgJSON"
    by (auto simp: parseBlockchainEvent_def Let_def split: option.splits)
  then have sub: "GetString L (EventInfo event) ''subId'' = GetString L msgJSON ''subId''"
    by (simp add: GetString_delete)
  have eq: "handleMessageBatch L f (JObject msgJSON # messages) h =
      (case callbacks_BlockchainEvent (callbacks f) ?ev h of
         (Some err, h') \<Rightarrow> (Some err, h')
       | (None, h') \<Rightarrow> handleMessageBatch L f messages h')"
    using other Some sub by (simp add: Let_def handleContractEvent_def)
  obtain r1 h1 where cb: "callbacks_BlockchainEvent (callbacks f) ?ev h = (r1, h1)"
    by (cases "callbacks_BlockchainEvent (callbacks f) ?ev h") auto
  from callbacks_BlockchainEvent_calls [OF cb]
  have one: "calls h1 = calls h @ [(CallBlockchainEvent ?ev, r1)]" .
  have "\<exists>r rest. new_calls h (snd (handleMessageBatch L f (JObject msgJSON # messages) h)) =
      (CallBlockchainEvent ?ev, r) # rest"
  proof (cases r1)
    case (Some e)
    with eq cb one show ?thesis by (simp add: new_calls_def)
  next
    case None
    obtain r2 h2 where rest: "handleMessageBatch L f messages h1 = (r2, h2)"
      by (cases "handleMessageBatch L f messages h1") auto
    from handleMessageBatch_calls [OF rest] obtain new where "calls h2 = calls h1 @ new"
      by auto
    with None eq cb one rest show ?thesis by (simp add: new_calls_def)
  qed
  with eq Some show ?thesis by simp
qed

theorem handleMessageBatch_other_subscription_witness:
  "GetString golib custom_msg ''subId'' \<noteq> subscription (fireflyContract (fabric0 [counting]))
   \<and> parseBlockchainEvent golib custom_msg = Some custom_event
   \<and> handleMessageBatch golib (fabric0 [counting]) [JObject custom_msg] host0 =
       (None, \<lparr>calls = [(custom_call, None)], hstate = 1\<rparr>)"
  using handleMessageBatch_other_subscription [OF custom_msg_other, of "[counting]" "[]" host0]
    custom_msg_other [of "[counting]"] custom_msg_parsed
  by (simp add: custom_msg_sub callbacks_BlockchainEvent_def fabric0_sel counting_def host0_def
      custom_call_def)

theorem other_subscription_counterexample:
  "GetString golib undecodable_msg ''subId'' \<noteq> subscription (fireflyContract (fabric0 [counting]))
   \<and> handleMessageBatch golib (fabric0 [counting]) [JObject undecodable_msg] host0 = (None, host0)"
  using undecodable_msg_other [of "[counting]"]
  by (simp add: handleContractEvent_def undecodable_msg_parsed Let_def)

text \<open>
  C5. A message that is not a JSON object makes \<open>handleMessageBatch\<close> return at once:
  the well-formed BatchPin event that follows it in the batch gets no callback, although
  the same event alone in a batch does. (A BatchPin event that fails to decode is
  skipped and the loop goes on: \<open>handleBatchPinEvent_skips\<close>,
  \<open>handleMessageBatch_skips\<close>.)
\<close>

theorem handleMessageBatch_non_object_drops_rest:
  "handleMessageBatch golib (fabric0 [counting]) [JObject pin_msg] host0 =
     (None, \<lparr>calls = [(CallBatchPinComplete pin_batch signer_ref, None)], hstate = 1\<rparr>)
   \<and> handleMessageBatch golib (fabric0 [counting]) [JNumber ''10'', JObject pin_msg] host0 =
     (None, host0)"
  by (simp add: pin_msg_active pin_msg_handled broadcastBatchEventName_def Let_def)

subsection \<open>Receipts\<close>

text \<open>
  C9. A receipt with a request identifier and a type in its headers leads to exactly
  one \<open>BlockchainOpUpdate\<close>, with the status succeeded when the type is
  \<open>TransactionSuccess\<close> and failed for any other type: the log grows by that call, and
  every registered listener is invoked with it, in the order of registration. A receipt
  that lacks either one leads to no callback and leaves the host as it was.
\<close>

theorem handleReceipt_status:
  assumes hd: "headers = GetObject reply ''headers''"
    and rid: "requestID = GetString L headers ''requestId''"
    and rty: "replyType = GetString L headers ''type''"
    and st: "status = (if replyType = ''TransactionSuccess'' then OpStatusSucceeded
                       else OpStatusFailed)"
  shows "calls (handleReceipt L f reply h) =
           calls h @
           (if requestID = '''' \<or> replyType = '''' then []
            else [(CallBlockchainOpUpdate requestID status
                     (GetString L reply ''transactionId'') (GetString L reply ''errorMessage'')
                     reply, None)])
       \<and> hstate (handleReceipt L f reply h) =
           (if requestID = '''' \<or> replyType = '''' then hstate h
            else foldl (\<lambda>s cb. onBlockchainOpUpdate cb requestID status
                                  (GetString L reply ''transactionId'')
                                  (GetString L reply ''errorMessage'') reply s)
                   (hstate h) (callbacks f))
       \<and> (requestID = '''' \<or> replyType = '''' \<longrightarrow> handleReceipt L f reply h = h)"
  by (simp add: handleReceipt_def hd rid rty st Let_def callbacks_BlockchainOpUpdate_def
      listeners_BlockchainOpUpdate_foldl)

theorem handleReceipt_status_witness:
  "handleReceipt golib (fabric0 [counting, tallying]) receipt_ok host0 =
     \<lparr>calls = [(CallBlockchainOpUpdate ''ns1:4603a151'' OpStatusSucceeded ''71a38acb7a5d4a97''
                  '''' receipt_ok, None)],
      hstate = 11\<rparr>
   \<and> handleReceipt golib (fabric0 [counting, tallying]) receipt_failed host0 =
     \<lparr>calls = [(CallBlockchainOpUpdate ''ns1:3a37b17b'' OpStatusFailed ''''
                  ''Packing arguments for method PinBatch'' receipt_failed, None)],
      hstate = 101\<rparr>
   \<and> GetString golib (GetObject receipt_anonymous ''headers'') ''requestId'' = ''''
   \<and> handleReceipt golib (fabric0 [counting, tallying]) receipt_anonymous host0 = host0"
proof -
  let ?f = "fabric0 [counting, tallying]"
  have eqI: "calls x = c \<Longrightarrow> hstate x = s \<Longrightarrow> x = \<lparr>calls = c, hstate = s\<rparr>"
    for x :: "nat host" and c s
    by (cases x) simp
  have a: "handleReceipt golib ?f receipt_ok host0 =
     \<lparr>calls = [(CallBlockchainOpUpdate ''ns1:4603a151'' OpStatusSucceeded ''71a38acb7a5d4a97''
                  '''' receipt_ok, None)],
      hstate = 11\<rparr>"
    using handleReceipt_status [OF refl refl refl refl, of golib ?f receipt_ok host0]
    by (intro eqI)
       (simp_all add: receipt_ok_def GetObject_def GetString_def host0_def fabric0_sel
          counting_def tallying_def)
  have b: "handleReceipt golib ?f receipt_failed host0 =
     \<lparr>calls = [(CallBlockchainOpUpdate ''ns1:3a37b17b'' OpStatusFailed ''''
                  ''Packing arguments for method PinBatch'' receipt_failed, None)],
      hstate = 101\<rparr>"
    using handleReceipt_status [OF refl refl refl refl, of golib ?f receipt_failed host0]
    by (intro eqI)
       (simp_all add: receipt_failed_def GetObject_def GetString_def host0_def fabric0_sel
          counting_def tallying_def)
  have c: "GetString golib (GetObject receipt_anonymous ''headers'') ''requestId'' = ''''"
    by (simp add: receipt_anonymous_def GetObject_def GetString_def)
  have d: "handleReceipt golib ?f receipt_anonymous host0 = host0"
    using handleReceipt_status [OF refl refl refl refl, of golib ?f receipt_anonymous host0] c
    by simp
  show ?thesis using a b c d by simp
qed

subsection \<open>The contract lifecycle\<close>

text \<open>
  C6, as amended. \<open>TerminateContract\<close> with an event of the active chaincode increments
  \<open>Active.Index\<close> by one (in 64-bit arithmetic), appends to \<open>Terminated\<close> exactly one
  record, the one that was active with its \<open>FinalEvent\<close> set to the \<open>ProtocolID\<close> of the
  event, and is \<open>ConfigureContract\<close> run on the result. When that returns \<open>nil\<close>, the new
  \<open>Active.Info\<close> holds the chaincode and the first block configured for the next index and
  the subscription ensured for them; when it does not, the new \<open>Active.Info\<close> stays empty
  and the connector is unchanged. The claim as stated, that \<open>Active.Info\<close> is repopulated
  whenever the event matches, fails when no deployment is configured for the next index.
\<close>

theorem TerminateContract_rolls_forward:
  assumes match: "GetString L (EventInfo termination) ''chaincodeId'' = chaincode (fireflyContract f)"
    and run: "TerminateContract L R f contracts termination = (res, f', contracts')"
  shows "Index (Active contracts') = Index (Active contracts) + 1
       \<and> (\<exists>closed. Terminated contracts' = Terminated contracts @ [closed]
             \<and> FinalEvent closed = ProtocolID termination
             \<and> closed = (Active contracts)\<lparr>FinalEvent := ProtocolID termination\<rparr>)
       \<and> (res, f', contracts') =
           ConfigureContract L R f
             \<lparr>Active = \<lparr>Index = Index (Active contracts) + 1, FinalEvent = '''', Info = []\<rparr>,
              Terminated = Terminated contracts @
                [(Active contracts)\<lparr>FinalEvent := ProtocolID termination\<rparr>]\<rparr>
       \<and> (res = Returns None \<longrightarrow>
            (\<exists>cc fb subID.
               resolveFireFlyContract L f (Index (Active contracts) + 1) = Inr (cc, fb)
               \<and> ensureFireFlySubscription R \<lparr>Channel = defaultChannel f, Chaincode = cc\<rparr> fb
                     (streamID f) batchPinEvent = Inr subID
               \<and> Info (Active contracts') =
                   [(''chaincode'', JString cc), (''fromBlock'', JString fb),
                    (''subscription'', JString subID)]))
       \<and> (res \<noteq> Returns None \<longrightarrow> Info (Active contracts') = [] \<and> f' = f)"
proof -
  let ?c3 = "\<lparr>Active = \<lparr>Index = Index (Active contracts) + 1, FinalEvent = '''', Info = []\<rparr>,
              Terminated = Terminated contracts @
                [(Active contracts)\<lparr>FinalEvent := ProtocolID termination\<rparr>]\<rparr>"
  have cfg: "ConfigureContract L R f ?c3 = (res, f', contracts')"
    using TerminateContract_matching [OF match] run by simp
  from ConfigureContract_Index [OF cfg]
  have idx: "Index (Active contracts') = Index (Active contracts) + 1"
    and trm: "Terminated contracts' = Terminated contracts @
                [(Active contracts)\<lparr>FinalEvent := ProtocolID termination\<rparr>]"
    by simp_all
  have info: "res = Returns None \<longrightarrow>
            (\<exists>cc fb subID.
               resolveFireFlyContract L f (Index (Active contracts) + 1) = Inr (cc, fb)
               \<and> ensureFireFlySubscription R \<lparr>Channel = defaultChannel f, Chaincode = cc\<rparr> fb
                     (streamID f) batchPinEvent = Inr subID
               \<and> Info (Active contracts') =
                   [(''chaincode'', JString cc), (''fromBlock'', JString fb),
                    (''subscription'', JString subID)])"
  proof
    assume "res = Returns None"
    with cfg have "ConfigureContract L R f ?c3 = (Returns None, f', contracts')" by simp
    from ConfigureContract_succeeded [OF this] show "\<exists>cc fb subID.
               resolveFireFlyContract L f (Index (Active contracts) + 1) = Inr (cc, fb)
               \<and> ensureFireFlySubscription R \<lparr>Channel = defaultChannel f, Chaincode = cc\<rparr> fb
                     (streamID f) batchPinEvent = Inr subID
               \<and> Info (Active contracts') =
                   [(''chaincode'', JString cc), (''fromBlock'', JString fb),
                    (''subscription'', JString subID)]"
      by auto
  qed
  have bare: "res \<noteq> Returns None \<longrightarrow> Info (Active contracts') = [] \<and> f' = f"
  proof
    assume "res \<noteq> Returns None"
    with ConfigureContract_failed [OF cfg] have "f' = f \<and> contracts' = ?c3" by simp
    then show "Info (Active contracts') = [] \<and> f' = f" by simp
  qed
  show ?thesis using idx trm cfg info bare by simp
qed

theorem TerminateContract_rolls_forward_witness:
  "GetString golib (EventInfo action_event) ''chaincodeId'' = chaincode (fireflyContract (fabric0 []))
   \<and> TerminateContract golib fabconnect (fabric0 []) contracts0 action_event =
       (Returns None,
        (fabric0 [])\<lparr>fireflyContract :=
          \<lparr>chaincode = ''firefly2'', fromBlock = ''oldest'', networkVersion = 2,
           subscription = ''sb-next''\<rparr>\<rparr>,
        rolled0)
   \<and> Index (Active rolled0) = Index (Active contracts0) + 1
   \<and> Terminated rolled0 =
       Terminated contracts0 @ [(Active contracts0)\<lparr>FinalEvent := ProtocolID action_event\<rparr>]
   \<and> resolveFireFlyContract golib (fabric0 []) (Index (Active contracts0) + 1) =
       Inr (''firefly2'', ''oldest'')
   \<and> Info (Active rolled0) =
       [(''chaincode'', JString ''firefly2''), (''fromBlock'', JString ''oldest''),
        (''subscription'', JString ''sb-next'')]
   \<and> TerminateContract golib fabconnect (fabric0 []) contracts1 action_event =
       (Returns (Some ''MsgInvalidFireFlyContractIndex blockchain.fabric.fireflyContract[2]''),
        fabric0 [], rolled1)
   \<and> Index (Active rolled1) = Index (Active contracts1) + 1
   \<and> Info (Active rolled1) = []"
  using TerminateContract_rolls_forward [OF action_event_chaincode terminate0]
    TerminateContract_rolls_forward [OF action_event_chaincode terminate1]
    action_event_chaincode terminate0 terminate1 resolve_next
  by (auto simp: contracts0_def contracts1_def rolled0_def rolled1_def)

theorem TerminateContract_info_counterexample:
  "GetString golib (EventInfo action_event) ''chaincodeId'' = chaincode (fireflyContract (fabric0 []))
   \<and> TerminateContract golib fabconnect (fabric0 []) contracts1 action_event =
       (Returns (Some ''MsgInvalidFireFlyContractIndex blockchain.fabric.fireflyContract[2]''),
        fabric0 [], rolled1)
   \<and> Index (Active rolled1) = Index (Active contracts1) + 1
   \<and> Info (Active rolled1) = []
   \<and> resolveFireFlyContract golib (fabric0 []) (Index (Active rolled1)) =
       Inl ''MsgInvalidFireFlyContractIndex blockchain.fabric.fireflyContract[2]''"
  using action_event_chaincode terminate1 resolve_beyond
  by (simp add: rolled1_def contracts1_def contracts0_def)

text \<open>
  C7. \<open>TerminateContract\<close> with an event whose chaincode is not the active one returns
  \<open>nil\<close> and changes neither the contracts record nor the connector.
\<close>

theorem TerminateContract_ignored:
  assumes "GetString L (EventInfo termination) ''chaincodeId'' \<noteq> chaincode (fireflyContract f)"
  shows "TerminateContract L R f contracts termination = (Returns None, f, contracts)"
  using assms by (simp add: TerminateContract_def Let_def)

theorem TerminateContract_ignored_witness:
  "GetString golib (EventInfo stale_event) ''chaincodeId'' \<noteq> chaincode (fireflyContract (fabric0 []))
   \<and> TerminateContract golib fabconnect (fabric0 []) contracts0 stale_event =
       (Returns None, fabric0 [], contracts0)"
  using TerminateContract_ignored [OF stale_event_chaincode] stale_event_chaincode by simp

text \<open>
  C8. When the query of the network version fails, \<open>getNetworkVersion\<close> returns version
  1 and no error if the text of the error contains \<open>Function NetworkVersion not found\<close>,
  and returns the error otherwise; in the second case \<open>ConfigureContract\<close> returns that
  error and leaves the connector and the contracts record as they were.
\<close>

theorem getNetworkVersion_not_found:
  assumes req: "res = postQuery R \<lparr>reqChannel = defaultChannel f, reqChaincode = cc,
                        reqFunc = ''NetworkVersion'', reqSigner = signer f\<rparr>"
    and failed: "\<not> IsSuccess res"
    and wrapped: "err = wrapError R res"
  shows "getNetworkVersion L R f cc =
           (if Contains err ''Function NetworkVersion not found'' then Returns (1, None)
            else Returns (0, Some err))
       \<and> (\<not> Contains err ''Function NetworkVersion not found''
            \<and> resolveFireFlyContract L f (Index (Active contracts)) = Inr (cc, fb)
            \<and> ensureFireFlySubscription R \<lparr>Channel = defaultChannel f, Chaincode = cc\<rparr> fb
                  (streamID f) batchPinEvent = Inr subID
            \<longrightarrow> ConfigureContract L R f contracts = (Returns (Some err), f, contracts))"
proof -
  have q: "queryContractMethod R (defaultChannel f) cc ''NetworkVersion'' (signer f) =
      (res, Some err)"
    using failed
    by (cases res) (auto simp: queryContractMethod_def req [symmetric] wrapped IsSuccess_def
        Let_def)
  have v: "getNetworkVersion L R f cc =
           (if Contains err ''Function NetworkVersion not found'' then Returns (1, None)
            else Returns (0, Some err))"
    by (simp add: getNetworkVersion_def q Let_def networkVersionMethodName_def)
  show ?thesis
    by (auto simp: v ConfigureContract_def Let_def)
qed

theorem getNetworkVersion_not_found_witness:
  "\<not> IsSuccess (postQuery fabconnect \<lparr>reqChannel = defaultChannel (fabric0 []),
        reqChaincode = ''firefly'', reqFunc = ''NetworkVersion'', reqSigner = signer (fabric0 [])\<rparr>)
   \<and> getNetworkVersion golib fabconnect (fabric0 []) ''firefly'' = Returns (1, None)
   \<and> \<not> IsSuccess (postQuery unreachable \<lparr>reqChannel = defaultChannel (fabric0 []),
        reqChaincode = ''firefly'', reqFunc = ''NetworkVersion'', reqSigner = signer (fabric0 [])\<rparr>)
   \<and> \<not> Contains ''FF10284: Error from fabconnect: connection refused''
         ''Function NetworkVersion not found''
   \<and> getNetworkVersion golib unreachable (fabric0 []) ''firefly'' =
       Returns (0, Some ''FF10284: Error from fabconnect: connection refused'')
   \<and> ConfigureContract golib unreachable (fabric0 []) contracts0 =
       (Returns (Some ''FF10284: Error from fabconnect: connection refused''), fabric0 [],
        contracts0)"
proof -
  let ?req = "\<lparr>reqChannel = defaultChannel (fabric0 []), reqChaincode = ''firefly'',
      reqFunc = ''NetworkVersion'', reqSigner = signer (fabric0 [])\<rparr>"
  have f1: "\<not> IsSuccess (postQuery fabconnect ?req)"
    by (simp add: fabconnect_def IsSuccess_def)
  have w1: "wrapError fabconnect (postQuery fabconnect ?req) =
      ''FF10284: Error from fabconnect: Function NetworkVersion not found''"
    by (simp add: fabconnect_def)
  have c1: "Contains ''FF10284: Error from fabconnect: Function NetworkVersion not found''
      ''Function NetworkVersion not found''"
    by (simp add: HasPrefix_def)
  have f2: "\<not> IsSuccess (postQuery unreachable ?req)"
    by (simp add: unreachable_def fabconnect_def IsSuccess_def)
  have w2: "''FF10284: Error from fabconnect: connection refused'' =
      wrapError unreachable (postQuery unreachable ?req)"
    by (simp add: unreachable_def fabconnect_def)
  have c2: "\<not> Contains ''FF10284: Error from fabconnect: connection refused''
      ''Function NetworkVersion not found''"
    by (simp add: HasPrefix_def)
  have r0: "resolveFireFlyContract golib (fabric0 []) (Index (Active contracts0)) =
      Inr (''firefly'', ''0'')"
    by (simp add: resolveFireFlyContract_def fabric0_def contracts0_def Let_def)
  have e0: "ensureFireFlySubscription unreachable
      \<lparr>Channel = defaultChannel (fabric0 []), Chaincode = ''firefly''\<rparr> ''0''
      (streamID (fabric0 [])) batchPinEvent = Inr ''sb-next''"
    by (simp add: fabconnect_ensure)
  note a = getNetworkVersion_not_found [OF refl f1 w1 [symmetric], of golib]
  note b = getNetworkVersion_not_found [OF refl f2 w2, of golib contracts0 "''0''" "''sb-next''"]
  show ?thesis
    using a b f1 f2 c1 c2 r0 e0 by simp
qed

text \<open>
  C10. When the event matches the active chaincode and \<open>ConfigureContract\<close> fails on the
  next index, \<open>TerminateContract\<close> returns that error together with a contracts record
  that has already changed: the record that was active is in \<open>Terminated\<close> with its
  \<open>FinalEvent\<close> set, and \<open>Active\<close> is the bare record of the next index.
\<close>

theorem TerminateContract_not_atomic:
  assumes match: "GetString L (EventInfo termination) ''chaincodeId'' = chaincode (fireflyContract f)"
    and bumped: "rolled = \<lparr>Active = \<lparr>Index = Index (Active contracts) + 1, FinalEvent = '''',
                                    Info = []\<rparr>,
                          Terminated = Terminated contracts @
                            [(Active contracts)\<lparr>FinalEvent := ProtocolID termination\<rparr>]\<rparr>"
    and fails: "fst (ConfigureContract L R f rolled) = Returns (Some err)"
  shows "TerminateContract L R f contracts termination = (Returns (Some err), f, rolled)"
proof -
  obtain res f' c' where cfg: "ConfigureContract L R f rolled = (res, f', c')"
    by (cases "ConfigureContract L R f rolled") auto
  with fails have res: "res = Returns (Some err)" by simp
  with ConfigureContract_failed [OF cfg] have "f' = f \<and> c' = rolled" by simp
  with cfg res have "ConfigureContract L R f rolled = (Returns (Some err), f, rolled)" by simp
  then show ?thesis using TerminateContract_matching [OF match] bumped by simp
qed

theorem TerminateContract_not_atomic_witness:
  "GetString golib (EventInfo action_event) ''chaincodeId'' = chaincode (fireflyContract (fabric0 []))
   \<and> fst (ConfigureContract golib fabconnect (fabric0 []) rolled1) =
       Returns (Some ''MsgInvalidFireFlyContractIndex blockchain.fabric.fireflyContract[2]'')
   \<and> TerminateContract golib fabconnect (fabric0 []) contracts1 action_event =
       (Returns (Some ''MsgInvalidFireFlyContractIndex blockchain.fabric.fireflyContract[2]''),
        fabric0 [], rolled1)
   \<and> rolled1 \<noteq> contracts1"
proof -
  have bumped: "rolled1 =
      \<lparr>Active = \<lparr>Index = Index (Active contracts1) + 1, FinalEvent = '''', Info = []\<rparr>,
       Terminated = Terminated contracts1 @
         [(Active contracts1)\<lparr>FinalEvent := ProtocolID action_event\<rparr>]\<rparr>"
    by (simp add: rolled1_def contracts1_def contracts0_def action_event_def pin_event_def)
  have changed: "rolled1 \<noteq> contracts1"
    by (simp add: rolled1_def contracts1_def contracts0_def)
  show ?thesis
    using TerminateContract_not_atomic [OF action_event_chaincode bumped configure_beyond]
      action_event_chaincode configure_beyond changed
    by simp
qed

end
